theory Spec2Isabelle
  imports Main "HOL-Library.List_Lexorder" "HOL-Library.Char_ord"
begin

section \<open>Issue model and configuration (types.ts)\<close>

text \<open>
  The Vibe Security Watchdog is a TypeScript/JavaScript tool. Its functions are embedded
  as HOL functions over explicit inputs. Conventions used throughout:
  \<^item> A JavaScript string is a \<open>string\<close> whose characters are its UTF-16 code units; the
    texts represented are those whose code units are all below 256. Text constants that the
    source writes in Turkish with emoji are rendered in ASCII, and the long multi-line
    remediation samples (the \<open>fix\<close> fields) are shortened to one line; no property below
    depends on their wording.
  \<^item> \<open>Date.now()\<close> is read once per scanner call: the parameter \<open>now\<close>.
  \<^item> The Node runtime (file system, \<open>path\<close>, \<open>glob\<close>) and the RegExp engine are not code of
    the repository; they are parameters (\<open>Platform\<close>). A built-in regular-expression literal
    is addressed by a name, a configured one by its source text.
  \<^item> A thrown exception is a value \<open>Inl fault\<close> of a sum type.
\<close>

datatype Severity = critical | warning | info

datatype IssueCategory = secret_leak | rls_missing | rls_no_auth | general

record SecurityIssue =
  issue_id :: string
  category :: IssueCategory
  severity :: Severity
  title :: string
  message :: string
  issue_file :: "string option"
  issue_line :: "nat option"
  issue_key :: "string option"
  issue_table :: "string option"
  timestamp :: nat

record SensitivePattern =
  pattern :: string
  pat_severity :: Severity
  pat_message :: string

record SecretScannerConfig =
  envFiles :: "string list"
  sensitivePatterns :: "SensitivePattern list"

record RLSScannerConfig =
  enabled :: bool
  scanDirs :: "string list"
  extensions :: "string list"
  excludeDirs :: "string list"
  supabaseUrl :: string
  supabaseServiceRoleKey :: string
  whitelistedTables :: "string list"

record ReporterConfig =
  terminal :: bool
  browserOverlay :: bool
  overlayAutoCloseMs :: nat
  soundAlert :: bool

record WatcherConfig =
  debounceMs :: nat
  additionalWatchPatterns :: "string list"

record VibeSecurityConfig =
  cfg_enabled :: bool
  secretScanner :: SecretScannerConfig
  rlsScanner :: RLSScannerConfig
  reporter :: ReporterConfig
  watcher :: WatcherConfig

record ScanResult =
  issues :: "SecurityIssue list"
  scannedAt :: nat
  duration :: nat

text \<open>An exception value: the \<open>message\<close> of the thrown \<open>Error\<close>.\<close>

datatype fault = Fault string

fun fault_message :: "fault \<Rightarrow> string" where
  "fault_message (Fault m) = m"

section \<open>The platform: file system, paths, glob, regular expressions and the RLS authority\<close>

text \<open>
  An HTTP call either throws (network failure), answers with a status that is not ok, or
  answers ok with a body whose \<open>json()\<close> throws or yields a value.
\<close>

datatype 'a json_result = JsonThrows string | JsonValue 'a

datatype 'a response = FetchThrows string | NotOk | Ok "'a json_result"

record RlsFlags =
  rls_enabled :: "bool option"
  has_auth_policy :: "bool option"

text \<open>The body of the \<open>exec_sql\<close> answer: an array of rows (a row may be \<open>null\<close>) or not an array.\<close>

datatype exec_body = NotAnArray | Rows "RlsFlags option list"

record Platform =
  glob :: "string \<Rightarrow> string \<Rightarrow> string list \<Rightarrow> string list"
    \<comment> \<open>\<open>glob(pattern, {cwd, absolute: true, ignore})\<close>: the absolute paths found\<close>
  existsSync :: "string \<Rightarrow> bool"
  readFileSync :: "string \<Rightarrow> string option"
    \<comment> \<open>\<open>None\<close>: \<open>fs.readFileSync\<close> throws\<close>
  pathJoin :: "string \<Rightarrow> string \<Rightarrow> string"
  relative :: "string \<Rightarrow> string \<Rightarrow> string"
    \<comment> \<open>\<open>path.relative(from, to)\<close>\<close>
  compileI :: "string \<Rightarrow> (string \<Rightarrow> bool) option"
    \<comment> \<open>\<open>new RegExp(source, 'i')\<close>: \<open>None\<close> when the constructor throws a SyntaxError,
        otherwise the \<open>test\<close> function of the regular expression\<close>
  testRe :: "string \<Rightarrow> string \<Rightarrow> bool"
    \<comment> \<open>\<open>test\<close> of a fresh copy of the built-in regular expression with the given name\<close>
  execAll :: "string \<Rightarrow> string \<Rightarrow> nat list"
    \<comment> \<open>the \<open>index\<close> of every successive \<open>exec\<close> match (flags \<open>gm\<close>) of the named
        built-in regular expression over a whole text\<close>
  fromCalls :: "string \<Rightarrow> string list"
    \<comment> \<open>capture group 1 of every successive match of \<open>SUPABASE_FROM_REGEX\<close> in a line\<close>
  fetchCheckRls :: "string \<Rightarrow> string \<Rightarrow> string \<Rightarrow> RlsFlags option response"
    \<comment> \<open>the POST to \<open>/rest/v1/rpc/check_rls_status\<close> for (url, key, table);
        the body \<open>None\<close> is JSON \<open>null\<close>\<close>
  fetchExecSql :: "string \<Rightarrow> string \<Rightarrow> string \<Rightarrow> exec_body response"
    \<comment> \<open>the POST to \<open>/rest/v1/rpc/exec_sql\<close> for (url, key, table)\<close>

section \<open>String helpers of the JavaScript standard library\<close>

definition NL :: char where
  "NL = CHR 0x0A"

definition CR :: char where
  "CR = CHR 0x0D"

text \<open>
  White space for \<open>trim\<close> and for \<open>\s\<close> in a regular expression: of the white-space and
  line-terminator code units of JavaScript, the ones below 256 are the tab, the line feed,
  the vertical tab, the form feed, the carriage return, the space and the no-break space.
\<close>

definition isSpace :: "char \<Rightarrow> bool" where
  "isSpace c =
     (c \<in> {CHR 0x09, CHR 0x0A, CHR 0x0B, CHR 0x0C, CHR 0x0D, CHR 0x20, CHR 0xA0})"

definition trim :: "string \<Rightarrow> string" where
  "trim s = rev (dropWhile isSpace (rev (dropWhile isSpace s)))"

definition startsWith :: "string \<Rightarrow> string \<Rightarrow> bool" where
  "startsWith s p = (take (length p) s = p)"

fun includesStr :: "string \<Rightarrow> string \<Rightarrow> bool" where
  "includesStr [] sub = (sub = [])"
| "includesStr (c # cs) sub = (startsWith (c # cs) sub \<or> includesStr cs sub)"

fun indexOf :: "string \<Rightarrow> char \<Rightarrow> nat option" where
  "indexOf [] c = None"
| "indexOf (x # xs) c = (if x = c then Some 0 else map_option Suc (indexOf xs c))"

text \<open>\<open>xs.join(sep)\<close>.\<close>

fun join :: "string \<Rightarrow> string list \<Rightarrow> string" where
  "join sep [] = []"
| "join sep [x] = x"
| "join sep (x # y # ys) = x @ sep @ join sep (y # ys)"

text \<open>\<open>content.split(/\r?\n/)\<close>: the accumulator is the current line, reversed.\<close>

fun splitLinesAcc :: "string \<Rightarrow> string \<Rightarrow> string list" where
  "splitLinesAcc acc [] = [rev acc]"
| "splitLinesAcc acc (c # cs) =
     (if c = NL then rev (case acc of [] \<Rightarrow> [] | a # as \<Rightarrow> if a = CR then as else a # as)
                     # splitLinesAcc [] cs
      else splitLinesAcc (c # acc) cs)"

definition splitLines :: "string \<Rightarrow> string list" where
  "splitLines content = splitLinesAcc [] content"

text \<open>Decimal rendering of a number inside a template literal.\<close>

definition digit :: "nat \<Rightarrow> char" where
  "digit d = char_of (48 + d)"

fun showNat :: "nat \<Rightarrow> string" where
  "showNat n = (if n < 10 then [digit n] else showNat (n div 10) @ [digit (n mod 10)])"

declare showNat.simps [simp del]

text \<open>\<open>[...new Set(xs)]\<close>: the first occurrence of every element, in order.\<close>

fun uniq :: "'a list \<Rightarrow> 'a list" where
  "uniq [] = []"
| "uniq (x # xs) = x # uniq (filter (\<lambda>y. y \<noteq> x) xs)"

section \<open>Secret Scanner (scanners/secret-scanner.ts)\<close>

record EnvEntry =
  ekey :: string
  evalue :: string
  eline :: nat

text \<open>\<open>value.replace(/^["']|["']$/g, '')\<close>: one quote off the front, one off the end.\<close>

definition isQuote :: "char \<Rightarrow> bool" where
  "isQuote c = (c = CHR 0x22 \<or> c = CHR 0x27)"

definition stripQuotes :: "string \<Rightarrow> string" where
  "stripQuotes s =
     (let s1 = (case s of [] \<Rightarrow> [] | c # cs \<Rightarrow> if isQuote c then cs else c # cs)
      in if s1 \<noteq> [] \<and> isQuote (last s1) then butlast s1 else s1)"

text \<open>\<open>trimmed.replace(/^export\s+/, '')\<close>.\<close>

definition stripExport :: "string \<Rightarrow> string" where
  "stripExport s =
     (if startsWith s ''export'' \<and> drop 6 s \<noteq> [] \<and> isSpace (hd (drop 6 s))
      then dropWhile isSpace (drop 6 s) else s)"

text \<open>The body of \<open>lines.forEach\<close> in \<open>parseEnvFile\<close>, for the line with the given index.\<close>

definition parseEnvLine :: "string \<Rightarrow> nat \<Rightarrow> EnvEntry list" where
  "parseEnvLine rawLine index =
     (let trimmed = trim rawLine in
      if trimmed = [] \<or> startsWith trimmed ''#'' then []
      else let cleaned = stripExport trimmed in
        case indexOf cleaned (CHR ''='') of
          None \<Rightarrow> []
        | Some eqIndex \<Rightarrow>
            [\<lparr>ekey = trim (take eqIndex cleaned),
              evalue = stripQuotes (trim (drop (eqIndex + 1) cleaned)),
              eline = index + 1\<rparr>])"

fun parseEnvLines :: "string list \<Rightarrow> nat \<Rightarrow> EnvEntry list" where
  "parseEnvLines [] index = []"
| "parseEnvLines (l # ls) index = parseEnvLine l index @ parseEnvLines ls (index + 1)"

definition parseEnvFile :: "Platform \<Rightarrow> string \<Rightarrow> EnvEntry list" where
  "parseEnvFile P filePath =
     (case readFileSync P filePath of
        None \<Rightarrow> []
      | Some content \<Rightarrow> parseEnvLines (splitLines content) 0)"

definition stripPublic :: "string \<Rightarrow> string" where
  "stripPublic k = (if startsWith k ''NEXT_PUBLIC_'' then drop 12 k else k)"

text \<open>The loop of \<open>matchesSensitivePattern\<close>; the constructor of a malformed pattern throws.\<close>

fun firstSensitive ::
  "Platform \<Rightarrow> string \<Rightarrow> string \<Rightarrow> SensitivePattern list \<Rightarrow> fault + SensitivePattern option" where
  "firstSensitive P k strippedKey [] = Inr None"
| "firstSensitive P k strippedKey (patternDef # rest) =
     (case compileI P (pattern patternDef) of
        None \<Rightarrow> Inl (Fault ''Invalid regular expression'')
      | Some regex \<Rightarrow>
          if regex k \<or> regex strippedKey then Inr (Some patternDef)
          else firstSensitive P k strippedKey rest)"

definition matchesSensitivePattern ::
  "Platform \<Rightarrow> string \<Rightarrow> SensitivePattern list \<Rightarrow> fault + SensitivePattern option" where
  "matchesSensitivePattern P k patterns =
     (if \<not> startsWith k ''NEXT_PUBLIC_'' then Inr None
      else firstSensitive P k (stripPublic k) patterns)"

text \<open>
  \<open>allEntries\<close>: a \<open>Map\<close> from a key to the locations (relative file, line) that define
  it, in insertion order.
\<close>

type_synonym entryMap = "string \<Rightarrow> (string \<times> nat) list option"

definition addLocation :: "entryMap \<Rightarrow> string \<Rightarrow> string \<times> nat \<Rightarrow> entryMap" where
  "addLocation m k loc = m(k \<mapsto> (case m k of None \<Rightarrow> [] | Some ls \<Rightarrow> ls) @ [loc])"

definition collectEntries ::
  "Platform \<Rightarrow> string \<Rightarrow> (string \<times> EnvEntry list) list \<Rightarrow> entryMap" where
  "collectEntries P projectRoot fileEntries =
     foldl (\<lambda>m (filePath, entries).
              foldl (\<lambda>m entry. addLocation m (ekey entry) (relative P projectRoot filePath, eline entry))
                    m entries)
           Map.empty fileEntries"

definition checkForDuplicateKey :: "string \<Rightarrow> entryMap \<Rightarrow> string option" where
  "checkForDuplicateKey k allEntries =
     (case allEntries (stripPublic k) of
        None \<Rightarrow> None
      | Some locations \<Rightarrow>
          Some (''Not: Bu anahtar NEXT_PUBLIC_ olmadan su konumlarda da tanimli: ''
                @ join '', '' (map (\<lambda>(f, l). f @ '':'' @ showNat l) locations)
                @ ''. Istemci tarafi icin NEXT_PUBLIC_ versiyonunu kaldirin ve sunucu tarafi versiyonunu kullanin.''))"

definition secretIssue ::
  "nat \<Rightarrow> string \<Rightarrow> EnvEntry \<Rightarrow> SensitivePattern \<Rightarrow> entryMap \<Rightarrow> SecurityIssue" where
  "secretIssue now relativeFile entry match allEntries =
     (let valueWarning =
            (if length (evalue entry) > 0
             then ''Deger atanmis ('' @ showNat (length (evalue entry))
                  @ '' karakter). Bu deger istemci JavaScript bundle'ina dahil edilecek!''
             else ''Deger bos, ancak anahtar tanimi bile risklidir.'');
          duplicateNote = checkForDuplicateKey (ekey entry) allEntries
      in \<lparr>issue_id = ''secret-'' @ relativeFile @ ''-'' @ ekey entry @ ''-'' @ showNat (eline entry),
          category = secret_leak,
          severity = pat_severity match,
          title = ''GUVENLIK RISKI: '' @ [CHR 0x27] @ ekey entry @ [CHR 0x27] @ '' istemci tarafina ifsa ediliyor!'',
          message = join [NL] (filter (\<lambda>s. s \<noteq> [])
            [pat_message match,
             [],
             ''Konum: '' @ relativeFile @ '':'' @ showNat (eline entry),
             ''Anahtar: '' @ ekey entry,
             valueWarning,
             [],
             ''Cozum: NEXT_PUBLIC_ onekini kaldirin ve bu degiskeni sadece sunucu tarafi kodlarindan (API routes, Server Components, Server Actions) erisin.'',
             (case duplicateNote of Some note \<Rightarrow> [NL] @ note | None \<Rightarrow> [])]),
          issue_file = Some relativeFile,
          issue_line = Some (eline entry),
          issue_key = Some (ekey entry),
          issue_table = None,
          timestamp = now\<rparr>)"

text \<open>Step 3 of \<open>scanSecrets\<close>: the inner loop over the entries of one file.\<close>

fun secretIssuesOfEntries ::
  "Platform \<Rightarrow> nat \<Rightarrow> SensitivePattern list \<Rightarrow> entryMap \<Rightarrow> string \<Rightarrow> EnvEntry list
     \<Rightarrow> fault + SecurityIssue list" where
  "secretIssuesOfEntries P now patterns allEntries relativeFile [] = Inr []"
| "secretIssuesOfEntries P now patterns allEntries relativeFile (entry # entries) =
     (case matchesSensitivePattern P (ekey entry) patterns of
        Inl e \<Rightarrow> Inl e
      | Inr m \<Rightarrow>
          (case secretIssuesOfEntries P now patterns allEntries relativeFile entries of
             Inl e \<Rightarrow> Inl e
           | Inr rest \<Rightarrow>
               Inr ((case m of None \<Rightarrow> []
                     | Some match \<Rightarrow> [secretIssue now relativeFile entry match allEntries]) @ rest)))"

text \<open>The outer loop over \<open>fileEntries\<close>.\<close>

fun secretIssuesOfFiles ::
  "Platform \<Rightarrow> nat \<Rightarrow> string \<Rightarrow> SensitivePattern list \<Rightarrow> entryMap
     \<Rightarrow> (string \<times> EnvEntry list) list \<Rightarrow> fault + SecurityIssue list" where
  "secretIssuesOfFiles P now projectRoot patterns allEntries [] = Inr []"
| "secretIssuesOfFiles P now projectRoot patterns allEntries ((filePath, entries) # rest) =
     (case secretIssuesOfEntries P now patterns allEntries (relative P projectRoot filePath) entries of
        Inl e \<Rightarrow> Inl e
      | Inr here \<Rightarrow>
          (case secretIssuesOfFiles P now projectRoot patterns allEntries rest of
             Inl e \<Rightarrow> Inl e
           | Inr others \<Rightarrow> Inr (here @ others)))"

definition gitignoreIssue :: "nat \<Rightarrow> SecurityIssue" where
  "gitignoreIssue now =
     \<lparr>issue_id = ''gitignore-env-missing'',
      category = general,
      severity = warning,
      title = ''.env dosyalari .gitignore'a eklenmemis!'',
      message = join [NL]
        [''.env dosyalariniz .gitignore dosyasinda yer almiyor.'',
         ''Bu dosyalar yanlislikla git repository'sine commit edilebilir.'',
         [],
         ''Cozum: .gitignore dosyaniza su satirlari ekleyin:'',
         ''   .env'',
         ''   .env.local'',
         ''   .env*.local''],
      issue_file = Some ''.gitignore'',
      issue_line = None,
      issue_key = None,
      issue_table = None,
      timestamp = now\<rparr>"

text \<open>Step 4 of \<open>scanSecrets\<close>; a failing read is swallowed by the \<open>try\<close>.\<close>

definition gitignoreCheck :: "Platform \<Rightarrow> nat \<Rightarrow> string \<Rightarrow> SecurityIssue list" where
  "gitignoreCheck P now projectRoot =
     (let gitignorePath = pathJoin P projectRoot ''.gitignore'' in
      if existsSync P gitignorePath then
        (case readFileSync P gitignorePath of
           None \<Rightarrow> []
         | Some gitignoreContent \<Rightarrow>
             (let hasEnvLocal = (includesStr gitignoreContent ''.env*.local''
                                 \<or> includesStr gitignoreContent ''.env.local'');
                  hasEnv = includesStr gitignoreContent ''.env''
              in if \<not> hasEnvLocal \<and> \<not> hasEnv then [gitignoreIssue now] else []))
      else [])"

definition scanSecrets ::
  "Platform \<Rightarrow> nat \<Rightarrow> string \<Rightarrow> SecretScannerConfig \<Rightarrow> fault + ScanResult" where
  "scanSecrets P now projectRoot config =
     (let envFilePaths = concat (map (\<lambda>pat. glob P pat projectRoot []) (envFiles config));
          uniqueFiles = uniq envFilePaths
      in if length uniqueFiles = 0
         then Inr \<lparr>issues = [], scannedAt = now, duration = 0\<rparr>
         else
           (let fileEntries = map (\<lambda>filePath. (filePath, parseEnvFile P filePath)) uniqueFiles;
                allEntries = collectEntries P projectRoot fileEntries
            in case secretIssuesOfFiles P now projectRoot (sensitivePatterns config) allEntries fileEntries of
                 Inl e \<Rightarrow> Inl e
               | Inr found \<Rightarrow>
                   Inr \<lparr>issues = found @ gitignoreCheck P now projectRoot,
                        scannedAt = now, duration = 0\<rparr>))"

section \<open>SQL-Injection Scanner (scanners/sql-injection-scanner.ts)\<close>

record SqlPattern =
  pat_id :: string
  pat_title :: string
  sql_message :: string
  pat_fix :: string

text \<open>
  \<open>SQL_INJECTION_PATTERNS\<close>. The \<open>regex\<close> of an entry is the built-in regular expression
  named by its \<open>id\<close>.
\<close>

definition SQL_INJECTION_PATTERNS :: "SqlPattern list" where
  "SQL_INJECTION_PATTERNS =
     [\<lparr>pat_id = ''rpc-template-literal'',
       pat_title = ''supabase.rpc() icinde template literal ile degisken gomuluyor'',
       sql_message = ''supabase.rpc() parametrelerinde template literal (${ }) kullanmayin. Degiskenleri dogrudan parametre objesi olarak gecirin.'',
       pat_fix = ''supabase.rpc('search_users', { query: userInput })''\<rparr>,
      \<lparr>pat_id = ''rpc-string-concat'',
       pat_title = ''supabase.rpc() icinde string birlestirme (concatenation) tespit edildi'',
       sql_message = ''SQL sorgularinda string birlestirme (+) yapmayin. Bu SQL injection'a acik kapi birakir.'',
       pat_fix = ''supabase.rpc('search', { term: userInput })''\<rparr>,
      \<lparr>pat_id = ''raw-sql-template-literal'',
       pat_title = ''Ham SQL sorgusunda template literal ile degisken gomuluyor'',
       sql_message = ''SQL sorgularinda dogrudan degisken gommeyin. Parametreli sorgular (prepared statements) kullanin.'',
       pat_fix = ''supabase.from('users').select('*').eq('id', userId)''\<rparr>,
      \<lparr>pat_id = ''raw-sql-string-concat'',
       pat_title = ''Ham SQL sorgusunda string birlestirme ile degisken gomuluyor'',
       sql_message = ''SQL sorgularini string birlestirme (+) ile olusturmayin. Bu klasik SQL injection vektorudur.'',
       pat_fix = ''supabase.from('users').select('*').eq('name', userName)''\<rparr>,
      \<lparr>pat_id = ''filter-template-literal'',
       pat_title = ''.filter() / .or() icinde template literal ile degisken gomuluyor'',
       sql_message = ''Supabase filter ifadelerinde template literal kullanmak guvensizdir.'',
       pat_fix = ''supabase.from('posts').select().eq('author_id', userId).eq('public', true)''\<rparr>,
      \<lparr>pat_id = ''search-template-literal'',
       pat_title = ''Arama sorgusunda template literal ile kullanici girisi gomuluyor'',
       sql_message = ''textSearch/ilike/like sorgularinda kullanici girdisini dogrudan template literal ile gommeyin.'',
       pat_fix = ''supabase.from('posts').select().ilike('title', '%' + searchTerm + '%')''\<rparr>]"

definition sqliLineIssue ::
  "nat \<Rightarrow> SqlPattern \<Rightarrow> string \<Rightarrow> nat \<Rightarrow> string \<Rightarrow> SecurityIssue" where
  "sqliLineIssue now pat relativePath lineNum lineContent =
     \<lparr>issue_id = ''sqli-'' @ pat_id pat @ ''-'' @ relativePath @ ''-'' @ showNat lineNum,
      category = general,
      severity = critical,
      title = ''SQL INJECTION RISKI: '' @ pat_title pat,
      message = join [NL]
        [sql_message pat,
         [],
         ''Konum: '' @ relativePath @ '':'' @ showNat lineNum,
         ''Satir: '' @ trim lineContent,
         [],
         ''Duzeltme Ornegi:'',
         pat_fix pat],
      issue_file = Some relativePath,
      issue_line = Some lineNum,
      issue_key = None,
      issue_table = None,
      timestamp = now\<rparr>"

definition sqliMultiIssue :: "nat \<Rightarrow> SqlPattern \<Rightarrow> string \<Rightarrow> nat \<Rightarrow> SecurityIssue" where
  "sqliMultiIssue now pat relativePath lineNum =
     \<lparr>issue_id = ''sqli-multi-'' @ pat_id pat @ ''-'' @ relativePath @ ''-'' @ showNat lineNum,
      category = general,
      severity = critical,
      title = ''SQL INJECTION RISKI: '' @ pat_title pat,
      message = join [NL]
        [sql_message pat,
         [],
         ''Konum: '' @ relativePath @ '':'' @ showNat lineNum,
         [],
         ''Duzeltme Ornegi:'',
         pat_fix pat],
      issue_file = Some relativePath,
      issue_line = Some lineNum,
      issue_key = None,
      issue_table = None,
      timestamp = now\<rparr>"

text \<open>
  The per-line pass. \<open>perLinePatterns\<close> is the \<open>for (const pattern ...)\<close> loop for one line,
  \<open>perLinePass\<close> the \<open>lines.forEach\<close> around it; \<open>found\<close> is the array \<open>issues\<close> so far.
\<close>

fun perLinePatterns ::
  "Platform \<Rightarrow> nat \<Rightarrow> string \<Rightarrow> nat \<Rightarrow> string \<Rightarrow> SecurityIssue list \<Rightarrow> SqlPattern list
     \<Rightarrow> SecurityIssue list" where
  "perLinePatterns P now relativePath lineNum lineContent found [] = found"
| "perLinePatterns P now relativePath lineNum lineContent found (pat # pats) =
     (if testRe P (pat_id pat) lineContent then
        (let issueId = ''sqli-'' @ pat_id pat @ ''-'' @ relativePath @ ''-'' @ showNat lineNum in
         if list_ex (\<lambda>i. issue_id i = issueId) found
         then perLinePatterns P now relativePath lineNum lineContent found pats
         else perLinePatterns P now relativePath lineNum lineContent
                (found @ [sqliLineIssue now pat relativePath lineNum lineContent]) pats)
      else perLinePatterns P now relativePath lineNum lineContent found pats)"

fun perLinePass ::
  "Platform \<Rightarrow> nat \<Rightarrow> string \<Rightarrow> nat \<Rightarrow> SecurityIssue list \<Rightarrow> string list \<Rightarrow> SecurityIssue list" where
  "perLinePass P now relativePath lineIndex found [] = found"
| "perLinePass P now relativePath lineIndex found (lineContent # rest) =
     perLinePass P now relativePath (lineIndex + 1)
       (perLinePatterns P now relativePath (lineIndex + 1) lineContent found SQL_INJECTION_PATTERNS)
       rest"

text \<open>\<open>content.substring(0, match.index).split('\n').length\<close>.\<close>

definition lineOfIndex :: "string \<Rightarrow> nat \<Rightarrow> nat" where
  "lineOfIndex content index = length (filter (\<lambda>c. c = NL) (take index content)) + 1"

text \<open>
  The whole-file pass. \<open>multiMatches\<close> is the \<open>while (exec)\<close> loop over the matches of one
  pattern, \<open>multiPass\<close> the loop over the patterns.
\<close>

fun multiMatches ::
  "nat \<Rightarrow> string \<Rightarrow> string \<Rightarrow> SqlPattern \<Rightarrow> SecurityIssue list \<Rightarrow> nat list \<Rightarrow> SecurityIssue list" where
  "multiMatches now relativePath content pat found [] = found"
| "multiMatches now relativePath content pat found (index # rest) =
     (let lineNum = lineOfIndex content index;
          issueId = ''sqli-multi-'' @ pat_id pat @ ''-'' @ relativePath @ ''-'' @ showNat lineNum in
      if \<not> list_ex (\<lambda>i. issue_id i = issueId) found
         \<and> \<not> list_ex (\<lambda>i. issue_file i = Some relativePath \<and> issue_line i = Some lineNum) found
      then multiMatches now relativePath content pat
             (found @ [sqliMultiIssue now pat relativePath lineNum]) rest
      else multiMatches now relativePath content pat found rest)"

fun multiPass ::
  "Platform \<Rightarrow> nat \<Rightarrow> string \<Rightarrow> string \<Rightarrow> SecurityIssue list \<Rightarrow> SqlPattern list \<Rightarrow> SecurityIssue list" where
  "multiPass P now relativePath content found [] = found"
| "multiPass P now relativePath content found (pat # pats) =
     multiPass P now relativePath content
       (multiMatches now relativePath content pat found (execAll P (pat_id pat) content)) pats"

definition scanFileForSQLInjection :: "Platform \<Rightarrow> nat \<Rightarrow> string \<Rightarrow> string \<Rightarrow> SecurityIssue list" where
  "scanFileForSQLInjection P now filePath projectRoot =
     (case readFileSync P filePath of
        None \<Rightarrow> []
      | Some content \<Rightarrow>
          (let relativePath = relative P projectRoot filePath in
           multiPass P now relativePath content
             (perLinePass P now relativePath 0 [] (splitLines content))
             SQL_INJECTION_PATTERNS))"

text \<open>The source files of the configured directories: the loops shared by three scanners.\<close>

definition sourceFilesOf :: "Platform \<Rightarrow> string \<Rightarrow> string list \<Rightarrow> string list \<Rightarrow> string list \<Rightarrow> string list" where
  "sourceFilesOf P projectRoot dirs exts excl =
     concat (map (\<lambda>dir.
        (let dirPath = pathJoin P projectRoot dir in
         if \<not> existsSync P dirPath then []
         else concat (map (\<lambda>ext. glob P (''**/*'' @ ext) dirPath (map (\<lambda>d. ''**/'' @ d @ ''/**'') excl)) exts)))
       dirs)"

definition scanSQLInjection ::
  "Platform \<Rightarrow> nat \<Rightarrow> string \<Rightarrow> string list \<Rightarrow> string list \<Rightarrow> string list \<Rightarrow> fault + ScanResult" where
  "scanSQLInjection P now projectRoot dirs exts excl =
     Inr \<lparr>issues = concat (map (\<lambda>filePath. scanFileForSQLInjection P now filePath projectRoot)
                              (sourceFilesOf P projectRoot dirs exts excl)),
          scannedAt = now, duration = 0\<rparr>"

section \<open>RLS Scanner over the HTTP authority (scanners/rls-scanner.ts)\<close>

record Usage =
  u_file :: string
  u_line :: nat
  u_context :: string

text \<open>\<open>findSupabaseQueries\<close>: (table, line, context) for every \<open>.from('table')\<close> call.\<close>

fun queriesOfLines :: "Platform \<Rightarrow> string list \<Rightarrow> nat \<Rightarrow> (string \<times> nat \<times> string) list" where
  "queriesOfLines P [] index = []"
| "queriesOfLines P (lineContent # rest) index =
     map (\<lambda>t. (t, index + 1, trim lineContent)) (fromCalls P lineContent)
     @ queriesOfLines P rest (index + 1)"

definition findSupabaseQueries :: "Platform \<Rightarrow> string \<Rightarrow> (string \<times> nat \<times> string) list" where
  "findSupabaseQueries P filePath =
     (case readFileSync P filePath of
        None \<Rightarrow> []
      | Some content \<Rightarrow> queriesOfLines P (splitLines content) 0)"

record RlsStatus =
  rlsEnabled :: bool
  hasAuthPolicy :: bool
  rls_error :: "string option"

definition failedStatus :: "string \<Rightarrow> RlsStatus" where
  "failedStatus msg = \<lparr>rlsEnabled = False, hasAuthPolicy = False, rls_error = Some msg\<rparr>"

text \<open>\<open>data.rls_enabled ?? false\<close> and \<open>data.has_auth_policy ?? false\<close>.\<close>

definition statusOfFlags :: "RlsFlags \<Rightarrow> RlsStatus" where
  "statusOfFlags d =
     \<lparr>rlsEnabled = (case rls_enabled d of None \<Rightarrow> False | Some b \<Rightarrow> b),
      hasAuthPolicy = (case has_auth_policy d of None \<Rightarrow> False | Some b \<Rightarrow> b),
      rls_error = None\<rparr>"

definition checkRLSViaDirectQuery :: "Platform \<Rightarrow> string \<Rightarrow> string \<Rightarrow> string \<Rightarrow> RlsStatus" where
  "checkRLSViaDirectQuery P tableName url serviceRoleKey =
     (case fetchExecSql P url serviceRoleKey tableName of
        FetchThrows m \<Rightarrow> failedStatus (''Dogrudan SQL kontrolu basarisiz: '' @ m)
      | NotOk \<Rightarrow>
          failedStatus (''RLS kontrolu icin Supabase RPC fonksiyonlari mevcut degil. Manuel kontrol onerilir. Detay: Supabase SQL Editor'da \"SELECT relrowsecurity FROM pg_class WHERE relname = ''
                        @ [CHR 0x27] @ tableName @ [CHR 0x27] @ ''\" sorgusunu calistirin.'')
      | Ok (JsonThrows m) \<Rightarrow> failedStatus (''Dogrudan SQL kontrolu basarisiz: '' @ m)
      | Ok (JsonValue NotAnArray) \<Rightarrow>
          failedStatus ([CHR 0x27] @ tableName @ [CHR 0x27] @ '' tablosu bulunamadi veya erisilemedi.'')
      | Ok (JsonValue (Rows [])) \<Rightarrow>
          failedStatus ([CHR 0x27] @ tableName @ [CHR 0x27] @ '' tablosu bulunamadi veya erisilemedi.'')
      | Ok (JsonValue (Rows (None # _))) \<Rightarrow>
          failedStatus (''Dogrudan SQL kontrolu basarisiz: '' @ ''Cannot read properties of null'')
      | Ok (JsonValue (Rows (Some d # _))) \<Rightarrow> statusOfFlags d)"

definition checkRLSStatus :: "Platform \<Rightarrow> string \<Rightarrow> string \<Rightarrow> string \<Rightarrow> RlsStatus" where
  "checkRLSStatus P tableName url serviceRoleKey =
     (if url = [] \<or> serviceRoleKey = [] then
        failedStatus ''Supabase baglanti bilgileri eksik. SUPABASE_URL ve SUPABASE_SERVICE_ROLE_KEY ayarlanmalidir.''
      else
        (case fetchCheckRls P url serviceRoleKey tableName of
           FetchThrows m \<Rightarrow> failedStatus (''RLS durumu kontrol edilemedi: '' @ m)
         | NotOk \<Rightarrow> checkRLSViaDirectQuery P tableName url serviceRoleKey
         | Ok (JsonThrows m) \<Rightarrow> failedStatus (''RLS durumu kontrol edilemedi: '' @ m)
         | Ok (JsonValue None) \<Rightarrow> \<lparr>rlsEnabled = False, hasAuthPolicy = False, rls_error = None\<rparr>
         | Ok (JsonValue (Some d)) \<Rightarrow> statusOfFlags d))"

text \<open>\<open>tableUsages\<close>: a \<open>Map\<close> from table name to usages, in insertion order of the keys.\<close>

fun addUsage :: "(string \<times> Usage list) list \<Rightarrow> string \<Rightarrow> Usage \<Rightarrow> (string \<times> Usage list) list" where
  "addUsage [] t u = [(t, [u])]"
| "addUsage ((t', us) # m) t u =
     (if t' = t then (t', us @ [u]) # m else (t', us) # addUsage m t u)"

definition collectUsages :: "Platform \<Rightarrow> string \<Rightarrow> string list \<Rightarrow> (string \<times> Usage list) list" where
  "collectUsages P projectRoot sourceFiles =
     foldl (\<lambda>m filePath.
              foldl (\<lambda>m (t, l, c). addUsage m t \<lparr>u_file = relative P projectRoot filePath, u_line = l, u_context = c\<rparr>)
                    m (findSupabaseQueries P filePath))
           [] sourceFiles"

definition usageLocations :: "Usage list \<Rightarrow> string" where
  "usageLocations usages =
     join [NL] (map (\<lambda>u. ''  '' @ u_file u @ '':'' @ showNat (u_line u) @ '' -> '' @ u_context u) usages)"

text \<open>The lines of the message of the issue for a table without RLS, before \<open>filter(Boolean)\<close>.\<close>

definition rlsDisabledLines :: "string \<Rightarrow> Usage list \<Rightarrow> RlsStatus \<Rightarrow> string list" where
  "rlsDisabledLines tableName usages rlsStatus =
     [[CHR 0x27] @ tableName @ [CHR 0x27] @ '' tablosunda Row Level Security (RLS) aktif degil.'',
      ''Bu, tum kullanicilarin bu tablodaki tum verilere erisebilecegi anlamina gelir.'',
      [],
      ''Bu tablo su dosyalarda kullaniliyor:'',
      usageLocations usages,
      [],
      (case rls_error rlsStatus of Some e \<Rightarrow> (if e = [] then [] else ''!  '' @ e) | None \<Rightarrow> []),
      [],
      ''Cozum: Supabase Dashboard -> Authentication -> Policies bolumunden'',
      ''   ALTER TABLE public.'' @ tableName @ '' ENABLE ROW LEVEL SECURITY;'',
      ''   komutuyla RLS'i aktif edin ve uygun politikalar olusturun.'']"

definition rlsDisabledIssue :: "nat \<Rightarrow> string \<Rightarrow> Usage list \<Rightarrow> RlsStatus \<Rightarrow> SecurityIssue" where
  "rlsDisabledIssue now tableName usages rlsStatus =
     \<lparr>issue_id = ''rls-disabled-'' @ tableName,
      category = rls_missing,
      severity = critical,
      title = ''GUVENLIK RISKI: '' @ [CHR 0x27] @ tableName @ [CHR 0x27]
              @ '' tablosunda RLS aktif degil! Verilerin ifsa olabilir.'',
      message = join [NL] (filter (\<lambda>s. s \<noteq> []) (rlsDisabledLines tableName usages rlsStatus)),
      issue_file = None,
      issue_line = None,
      issue_key = None,
      issue_table = Some tableName,
      timestamp = now\<rparr>"

definition rlsNoAuthIssue :: "nat \<Rightarrow> string \<Rightarrow> Usage list \<Rightarrow> SecurityIssue" where
  "rlsNoAuthIssue now tableName usages =
     \<lparr>issue_id = ''rls-no-auth-'' @ tableName,
      category = rls_no_auth,
      severity = warning,
      title = [CHR 0x27] @ tableName @ [CHR 0x27] @ '' tablosunda auth.uid() kontrolu bulunamadi!'',
      message = join [NL]
        [[CHR 0x27] @ tableName @ [CHR 0x27]
           @ '' tablosunda RLS aktif, ancak auth.uid() kontrolu iceren bir politika bulunamadi.'',
         ''Bu, kullanicilarin diger kullanicilarin verilerine erisebilecegi anlamina gelebilir.'',
         [],
         ''Bu tablo su dosyalarda kullaniliyor:'',
         usageLocations usages,
         [],
         ''Cozum: Tabloya auth.uid() kontrolu iceren bir RLS politikasi ekleyin:'',
         ''   CREATE POLICY \"Users can view own data\" ON public.'' @ tableName,
         ''     FOR SELECT USING (auth.uid() = user_id);''],
      issue_file = None,
      issue_line = None,
      issue_key = None,
      issue_table = Some tableName,
      timestamp = now\<rparr>"

text \<open>The two \<open>if\<close> statements of the loop body, for a table that is not whitelisted.\<close>

definition rlsIssuesForTable :: "nat \<Rightarrow> string \<Rightarrow> Usage list \<Rightarrow> RlsStatus \<Rightarrow> SecurityIssue list" where
  "rlsIssuesForTable now tableName usages rlsStatus =
     (if \<not> rlsEnabled rlsStatus then [rlsDisabledIssue now tableName usages rlsStatus] else [])
     @ (if rlsEnabled rlsStatus \<and> \<not> hasAuthPolicy rlsStatus
           \<and> (case rls_error rlsStatus of None \<Rightarrow> True | Some e \<Rightarrow> e = [])
        then [rlsNoAuthIssue now tableName usages] else [])"

text \<open>Step 3 of \<open>scanRLS\<close>: the loop over \<open>tableUsages\<close>, with the set \<open>checkedTables\<close>.\<close>

fun rlsLoop ::
  "Platform \<Rightarrow> nat \<Rightarrow> RLSScannerConfig \<Rightarrow> string list \<Rightarrow> (string \<times> Usage list) list \<Rightarrow> SecurityIssue list" where
  "rlsLoop P now config checkedTables [] = []"
| "rlsLoop P now config checkedTables ((tableName, usages) # rest) =
     (if tableName \<in> set checkedTables then rlsLoop P now config checkedTables rest
      else if tableName \<in> set (whitelistedTables config)
           then rlsLoop P now config (tableName # checkedTables) rest
      else rlsIssuesForTable now tableName usages
             (checkRLSStatus P tableName (supabaseUrl config) (supabaseServiceRoleKey config))
           @ rlsLoop P now config (tableName # checkedTables) rest)"

definition scanRLS :: "Platform \<Rightarrow> nat \<Rightarrow> string \<Rightarrow> RLSScannerConfig \<Rightarrow> fault + ScanResult" where
  "scanRLS P now projectRoot config =
     (if \<not> enabled config then Inr \<lparr>issues = [], scannedAt = now, duration = 0\<rparr>
      else
        (let sourceFiles = sourceFilesOf P projectRoot (scanDirs config) (extensions config) (excludeDirs config);
             tableUsages = collectUsages P projectRoot sourceFiles
         in if length tableUsages = 0
            then Inr \<lparr>issues = [], scannedAt = now, duration = 0\<rparr>
            else Inr \<lparr>issues = rlsLoop P now config [] tableUsages, scannedAt = now, duration = 0\<rparr>))"

section \<open>RLS Scanner over a direct database connection (second \<open>scanRLS\<close>, JavaScript)\<close>

text \<open>
  The \<open>pg\<close> client is a parameter: the outcome of \<open>new Client(...)\<close> with SSL (before the
  \<open>try\<close>) and without (inside it), of the first \<open>connect()\<close> and the second one, of the
  catalogue query, and of \<open>client.end()\<close> in the \<open>finally\<close> block. \<open>Some m\<close> is an error
  thrown with message \<open>m\<close>.
\<close>

record DbRow =
  table_name :: string
  row_rls_enabled :: bool
  policy_count :: nat

record Database =
  newClientSsl :: "string option"
    \<comment> \<open>\<open>new Client({connectionString, ssl})\<close>, which throws for a malformed URL\<close>
  connectSsl :: "string option"
  newClientPlain :: "string option"
  connectPlain :: "string option"
  queryRows :: "fault + DbRow list"
  clientEnd :: "string option"

record DbIssue =
  db_severity :: Severity
  db_category :: string
  db_table :: "string option"
  db_title :: string
  db_message :: string
  db_file :: string

record DbScanResult =
  db_issues :: "DbIssue list"
  filteredTables :: "(string \<times> (string \<times> nat) list) list"

definition dbRowIssue :: "DbRow \<Rightarrow> DbIssue" where
  "dbRowIssue row =
     (let tableName = table_name row; policyCount = policy_count row in
      if \<not> row_rls_enabled row then
        \<lparr>db_severity = critical, db_category = ''rls-check'', db_table = Some tableName,
         db_title = ''RLS KAPALI: '' @ [CHR 0x27] @ tableName @ [CHR 0x27] @ '' tablosu savunmasiz!'',
         db_message = ''Bu tabloda RLS etkinlestirilmemis. Herkes veri okuyabilir veya yazabilir.'',
         db_file = ''(direct db)''\<rparr>
      else if policyCount = 0 then
        \<lparr>db_severity = warning, db_category = ''rls-check'', db_table = Some tableName,
         db_title = ''RLS ACIK AMA POLITIKA YOK: '' @ [CHR 0x27] @ tableName @ [CHR 0x27],
         db_message = ''RLS acik ancak hic policy tanimlanmamis. Kimse veriye erisemez, bu kasitli degilse bir hata olabilir.'',
         db_file = ''(direct db)''\<rparr>
      else
        \<lparr>db_severity = info, db_category = ''rls-check'', db_table = Some tableName,
         db_title = ''RLS ACIK: '' @ [CHR 0x27] @ tableName @ [CHR 0x27] @ '' tablosunda ''
                    @ showNat policyCount @ '' politika var.'',
         db_message = ''Standart kontrol basarili.'',
         db_file = ''(direct db)''\<rparr>)"

text \<open>\<open>filteredTables.set(tableName, ...)\<close> on a \<open>Map\<close> kept in insertion order.\<close>

fun mapSet :: "('k \<times> 'v) list \<Rightarrow> 'k \<Rightarrow> 'v \<Rightarrow> ('k \<times> 'v) list" where
  "mapSet [] k v = [(k, v)]"
| "mapSet ((k', v') # m) k v = (if k' = k then (k', v) # m else (k', v') # mapSet m k v)"

text \<open>The \<open>for (const row of res.rows)\<close> loop; \<open>whitelisted\<close> may be undefined (\<open>None\<close>).\<close>

fun dbRowsLoop :: "string list option \<Rightarrow> DbScanResult \<Rightarrow> DbRow list \<Rightarrow> DbScanResult" where
  "dbRowsLoop whitelisted acc [] = acc"
| "dbRowsLoop whitelisted acc (row # rest) =
     (let acc1 = acc\<lparr>filteredTables := mapSet (filteredTables acc) (table_name row) [(''database -> public'', 1)]\<rparr> in
      if (case whitelisted of None \<Rightarrow> False | Some w \<Rightarrow> table_name row \<in> set w)
      then dbRowsLoop whitelisted acc1 rest
      else dbRowsLoop whitelisted (acc1\<lparr>db_issues := db_issues acc1 @ [dbRowIssue row]\<rparr>) rest)"

text \<open>The \<open>try\<close> block: connecting (with the SSL fallback) and querying.\<close>

definition dbConnectAndQuery :: "Database \<Rightarrow> fault + DbRow list" where
  "dbConnectAndQuery D =
     (case connectSsl D of
        None \<Rightarrow> queryRows D
      | Some m \<Rightarrow>
          if m \<noteq> [] \<and> includesStr m ''SSL'' then
            (case newClientPlain D of
               Some m1 \<Rightarrow> Inl (Fault m1)
             | None \<Rightarrow> (case connectPlain D of None \<Rightarrow> queryRows D | Some m2 \<Rightarrow> Inl (Fault m2)))
          else Inl (Fault m))"

definition dbMissingUrlIssue :: DbIssue where
  "dbMissingUrlIssue =
     \<lparr>db_severity = warning, db_category = ''rls-check'', db_table = None,
      db_title = ''Veritabani URL bulunamadi!'',
      db_message = ''RLS taramasi icin DATABASE_URL (or. .env.local icinde) gerekli.'',
      db_file = ''.env.local''\<rparr>"

text \<open>The issue pushed by the \<open>catch\<close> block.\<close>

definition dbConnectionIssue :: "fault \<Rightarrow> DbIssue" where
  "dbConnectionIssue err =
     \<lparr>db_severity = critical, db_category = ''rls-check'', db_table = None,
      db_title = ''Veritabani Baglanti Hatasi: '' @ fault_message err,
      db_message = ''RLS taramasi icin veritabanina baglanilamadi. IP kisitlamalari veya yanlis URL olabilir.'',
      db_file = ''.env.local''\<rparr>"

definition scanRLS_db :: "Database \<Rightarrow> string \<Rightarrow> string list option \<Rightarrow> fault + DbScanResult" where
  "scanRLS_db D databaseUrl whitelisted =
     (if databaseUrl = [] then Inr \<lparr>db_issues = [dbMissingUrlIssue], filteredTables = []\<rparr>
      else
        (case newClientSsl D of
           Some m \<Rightarrow> Inl (Fault m)
         | None \<Rightarrow>
             (let result =
                (case dbConnectAndQuery D of
                   Inr rows \<Rightarrow> dbRowsLoop whitelisted \<lparr>db_issues = [], filteredTables = []\<rparr> rows
                 | Inl err \<Rightarrow> \<lparr>db_issues = [dbConnectionIssue err], filteredTables = []\<rparr>)
              in case clientEnd D of
                   Some m \<Rightarrow> Inl (Fault m)
                 | None \<Rightarrow> Inr result)))"

section \<open>API-Key Guardian (scanners/api-key-guardian.ts)\<close>

text \<open>
  A rule of \<open>DEFAULT_API_KEY_RULES\<close>. Its regular expressions are built-in ones, named
  here by their source without the escape characters; the key patterns are well-formed
  constants, so their constructor does not throw.
\<close>

record APIKeyRule =
  rule_id :: string
  service :: string
  envKeyPatterns :: "string list"
  codePatterns :: "string list"
  clientFilePatterns :: "string list"
  rule_message :: string
  rule_fix :: string

definition DEFAULT_API_KEY_RULES :: "APIKeyRule list" where
  "DEFAULT_API_KEY_RULES =
     [\<lparr>rule_id = ''serper-dev'', service = ''Serper.dev'',
       envKeyPatterns = [''SERPER'', ''SERP_API''],
       codePatterns = [''[q]https?://(?:google.)?serper.dev/gi'', ''serper.dev/gi'', ''SERPER_API_KEY/g'',
                       ''SERP_API_KEY/g'', ''x-api-key[q]s*:s*.*serper/gi'', ''headers s*:s*{[^}]*[q]X-API-KEY[q]/gi''],
       clientFilePatterns = [''^src/app/(?!api/).*.(tsx?|jsx?)$'', ''^src/components/.*.(tsx?|jsx?)$'',
                             ''^src/hooks/.*.(tsx?|jsx?)$'', ''^src/lib/client/i'',
                             ''^app/(?!api/).*.(tsx?|jsx?)$'', ''^pages/(?!api/).*.(tsx?|jsx?)$'',
                             ''^components/.*.(tsx?|jsx?)$'', ''[q]use client[q]''],
       rule_message = ''Serper.dev API anahtari istemci tarafinda kullaniliyor! Bu anahtar tarayicida gorunur olacak ve kotuye kullanilabilir.'',
       rule_fix = ''// Dogru: API Route uzerinden proxy''\<rparr>,
      \<lparr>rule_id = ''openai'', service = ''OpenAI'',
       envKeyPatterns = [''OPENAI_API_KEY'', ''OPENAI_SECRET''],
       codePatterns = [''OPENAI_API_KEY/g'', ''openai.com/v1/gi'', ''new s+OpenAI s*(/g'', ''sk-[a-zA-Z0-9]{20,}/g''],
       clientFilePatterns = [''^src/app/(?!api/).*.(tsx?|jsx?)$'', ''^src/components/.*.(tsx?|jsx?)$'',
                             ''[q]use client[q]''],
       rule_message = ''OpenAI API anahtari istemci tarafinda kullaniliyor! API maliyetleri kontrolsuz artabilir.'',
       rule_fix = ''// Dogru: OpenAI cagrilarini API Route'a tasiyin''\<rparr>,
      \<lparr>rule_id = ''anthropic'', service = ''Anthropic (Claude)'',
       envKeyPatterns = [''ANTHROPIC_API_KEY'', ''CLAUDE_API_KEY''],
       codePatterns = [''ANTHROPIC_API_KEY/g'', ''anthropic.com/gi'', ''new s+Anthropic s*(/g'',
                       ''sk-ant-[a-zA-Z0-9-]{20,}/g''],
       clientFilePatterns = [''^src/app/(?!api/).*.(tsx?|jsx?)$'', ''^src/components/.*.(tsx?|jsx?)$'',
                             ''[q]use client[q]''],
       rule_message = ''Anthropic API anahtari istemci tarafinda kullaniliyor!'',
       rule_fix = ''// Dogru: API Route kullanin.''\<rparr>,
      \<lparr>rule_id = ''google-ai'', service = ''Google AI (Gemini)'',
       envKeyPatterns = [''GOOGLE_API_KEY'', ''GEMINI_API_KEY''],
       codePatterns = [''GOOGLE_API_KEY/g'', ''GEMINI_API_KEY/g'', ''generativelanguage.googleapis.com/gi'',
                       ''new s+GoogleGenerativeAI s*(/g''],
       clientFilePatterns = [''^src/app/(?!api/).*.(tsx?|jsx?)$'', ''^src/components/.*.(tsx?|jsx?)$'',
                             ''[q]use client[q]''],
       rule_message = ''Google AI API anahtari istemci tarafinda kullaniliyor!'',
       rule_fix = ''// Dogru: API Route kullanin.''\<rparr>]"

definition isClientSideFile :: "Platform \<Rightarrow> string \<Rightarrow> string \<Rightarrow> string list \<Rightarrow> bool" where
  "isClientSideFile P relativePath content clientPatterns =
     (if testRe P ''^[q]use client[q]/m'' content then True
      else
        (let normalizedPath = map (\<lambda>c. if c = CHR 0x5C then CHR ''/'' else c) relativePath in
         list_ex (\<lambda>pat. \<not> includesStr pat ''use client'' \<and> testRe P pat normalizedPath) clientPatterns))"

definition apiEnvIssue :: "nat \<Rightarrow> APIKeyRule \<Rightarrow> string \<Rightarrow> nat \<Rightarrow> string \<Rightarrow> SecurityIssue" where
  "apiEnvIssue now r envFile index trimmed =
     \<lparr>issue_id = ''apikey-env-'' @ rule_id r @ ''-'' @ envFile @ ''-'' @ showNat (index + 1),
      category = secret_leak,
      severity = critical,
      title = service r @ '' API anahtari NEXT_PUBLIC_ ile ifsa ediliyor!'',
      message = join [NL]
        [rule_message r,
         [],
         ''Konum: '' @ envFile @ '':'' @ showNat (index + 1),
         ''Satir: '' @ (case indexOf trimmed (CHR ''='') of None \<Rightarrow> [] | Some i \<Rightarrow> take (i + 1) trimmed) @ ''***'',
         [],
         ''Duzeltme:'',
         ''1. NEXT_PUBLIC_ onekini kaldirin'',
         ''2. API cagrisini sunucu tarafina (API Route) tasiyin'',
         [],
         rule_fix r],
      issue_file = Some envFile,
      issue_line = Some (index + 1),
      issue_key = Some (case indexOf trimmed (CHR ''='') of None \<Rightarrow> [] | Some i \<Rightarrow> take i trimmed),
      issue_table = None,
      timestamp = now\<rparr>"

fun apiEnvLines :: "Platform \<Rightarrow> nat \<Rightarrow> APIKeyRule list \<Rightarrow> string \<Rightarrow> string list \<Rightarrow> nat \<Rightarrow> SecurityIssue list" where
  "apiEnvLines P now rules envFile [] index = []"
| "apiEnvLines P now rules envFile (l # ls) index =
     (let trimmed = trim l in
      if trimmed = [] \<or> startsWith trimmed ''#'' then []
      else if \<not> startsWith trimmed ''NEXT_PUBLIC_'' then []
      else concat (map (\<lambda>r. concat (map (\<lambda>keyPattern.
                     if testRe P keyPattern trimmed then [apiEnvIssue now r envFile index trimmed] else [])
                   (envKeyPatterns r))) rules))
     @ apiEnvLines P now rules envFile ls (index + 1)"

definition checkEnvForAPIKeys :: "Platform \<Rightarrow> nat \<Rightarrow> string \<Rightarrow> APIKeyRule list \<Rightarrow> SecurityIssue list" where
  "checkEnvForAPIKeys P now projectRoot rules =
     concat (map (\<lambda>envFile.
        (let envPath = pathJoin P projectRoot envFile in
         if \<not> existsSync P envPath then []
         else (case readFileSync P envPath of
                 None \<Rightarrow> []
               | Some content \<Rightarrow> apiEnvLines P now rules envFile (splitLines content) 0)))
       [''.env'', ''.env.local'', ''.env.development'', ''.env.production''])"

definition apiCodeIssue :: "nat \<Rightarrow> APIKeyRule \<Rightarrow> string \<Rightarrow> nat \<Rightarrow> string \<Rightarrow> SecurityIssue" where
  "apiCodeIssue now r relativePath lineIndex lineContent =
     \<lparr>issue_id = ''apikey-code-'' @ rule_id r @ ''-'' @ relativePath @ ''-'' @ showNat (lineIndex + 1),
      category = secret_leak,
      severity = warning,
      title = service r @ '' istemci tarafi kodda referans ediliyor!'',
      message = join [NL]
        [[CHR 0x27] @ relativePath @ [CHR 0x27] @ '' dosyasi istemci tarafinda calisiyor ve ''
           @ service r @ '' referansi iceriyor.'',
         [],
         ''Konum: '' @ relativePath @ '':'' @ showNat (lineIndex + 1),
         ''Satir: '' @ take 120 (trim lineContent),
         [],
         rule_message r,
         [],
         ''Duzeltme:'',
         rule_fix r],
      issue_file = Some relativePath,
      issue_line = Some (lineIndex + 1),
      issue_key = None,
      issue_table = None,
      timestamp = now\<rparr>"

fun apiCodeLines ::
  "Platform \<Rightarrow> nat \<Rightarrow> APIKeyRule \<Rightarrow> string \<Rightarrow> string \<Rightarrow> SecurityIssue list \<Rightarrow> string list \<Rightarrow> nat
     \<Rightarrow> SecurityIssue list" where
  "apiCodeLines P now r relativePath codePattern found [] lineIndex = found"
| "apiCodeLines P now r relativePath codePattern found (lineContent # rest) lineIndex =
     apiCodeLines P now r relativePath codePattern
       (if testRe P codePattern lineContent
           \<and> \<not> list_ex (\<lambda>i. issue_id i = ''apikey-code-'' @ rule_id r @ ''-'' @ relativePath @ ''-''
                                              @ showNat (lineIndex + 1)) found
        then found @ [apiCodeIssue now r relativePath lineIndex lineContent] else found)
       rest (lineIndex + 1)"

fun apiCodeRules ::
  "Platform \<Rightarrow> nat \<Rightarrow> string \<Rightarrow> string \<Rightarrow> SecurityIssue list \<Rightarrow> APIKeyRule list \<Rightarrow> SecurityIssue list" where
  "apiCodeRules P now relativePath content found [] = found"
| "apiCodeRules P now relativePath content found (r # rules) =
     apiCodeRules P now relativePath content
       (if \<not> isClientSideFile P relativePath content (clientFilePatterns r) then found
        else foldl (\<lambda>acc codePattern.
                      apiCodeLines P now r relativePath codePattern acc (splitLines content) 0)
                   found (codePatterns r))
       rules"

fun apiCodeFiles ::
  "Platform \<Rightarrow> nat \<Rightarrow> string \<Rightarrow> APIKeyRule list \<Rightarrow> SecurityIssue list \<Rightarrow> string list \<Rightarrow> SecurityIssue list" where
  "apiCodeFiles P now projectRoot rules found [] = found"
| "apiCodeFiles P now projectRoot rules found (filePath # files) =
     apiCodeFiles P now projectRoot rules
       (case readFileSync P filePath of
          None \<Rightarrow> found
        | Some content \<Rightarrow> apiCodeRules P now (relative P projectRoot filePath) content found rules)
       files"

definition checkCodeForAPIKeys ::
  "Platform \<Rightarrow> nat \<Rightarrow> string \<Rightarrow> APIKeyRule list \<Rightarrow> string list \<Rightarrow> string list \<Rightarrow> string list
     \<Rightarrow> SecurityIssue list" where
  "checkCodeForAPIKeys P now projectRoot rules dirs exts excl =
     apiCodeFiles P now projectRoot rules [] (sourceFilesOf P projectRoot dirs exts excl)"

definition scanAPIKeys ::
  "Platform \<Rightarrow> nat \<Rightarrow> string \<Rightarrow> APIKeyRule list \<Rightarrow> string list \<Rightarrow> string list \<Rightarrow> string list
     \<Rightarrow> fault + ScanResult" where
  "scanAPIKeys P now projectRoot customRules dirs exts excl =
     (let rules = DEFAULT_API_KEY_RULES @ customRules;
          envIssues = checkEnvForAPIKeys P now projectRoot rules;
          codeIssues = checkCodeForAPIKeys P now projectRoot rules dirs exts excl
      in Inr \<lparr>issues = envIssues @ codeIssues, scannedAt = now, duration = 0\<rparr>)"

section \<open>Orchestrator (index.ts)\<close>

text \<open>
  The module state \<open>latestIssues\<close> and \<open>isScanning\<close>, together with what a run leaves behind:
  the \<open>console.error\<close> lines, and the issue lists handed to \<open>reportToTerminal\<close>,
  \<open>printRLSRecipes\<close> and \<open>writeVibeSummary\<close>.
\<close>

record OrchState =
  latestIssues :: "SecurityIssue list"
  isScanning :: bool
  consoleErrors :: "string list"
  terminalReports :: "SecurityIssue list list"
  recipesPrinted :: "SecurityIssue list list"
  summariesWritten :: "SecurityIssue list list"

text \<open>The four imported scanners, as \<open>runFullScan\<close> calls them.\<close>

record Scanners =
  callSecrets :: "string \<Rightarrow> SecretScannerConfig \<Rightarrow> fault + ScanResult"
  callRLS :: "string \<Rightarrow> RLSScannerConfig \<Rightarrow> fault + ScanResult"
  callSQLInjection :: "string \<Rightarrow> string list \<Rightarrow> string list \<Rightarrow> string list \<Rightarrow> fault + ScanResult"
  callAPIKeys :: "string \<Rightarrow> APIKeyRule list \<Rightarrow> string list \<Rightarrow> string list \<Rightarrow> string list \<Rightarrow> fault + ScanResult"

text \<open>
  The \<open>try\<close> block up to the last scanner: the array \<open>allIssues\<close>, and the fault if a scanner
  threw (the later scanners are then not called).
\<close>

definition collectIssues ::
  "Scanners \<Rightarrow> string \<Rightarrow> VibeSecurityConfig \<Rightarrow> SecurityIssue list \<times> fault option" where
  "collectIssues S projectRoot config =
     (case callSecrets S projectRoot (secretScanner config) of
        Inl e \<Rightarrow> ([], Some e)
      | Inr secretResult \<Rightarrow>
          (let all1 = issues secretResult in
           case (if enabled (rlsScanner config)
                 then callRLS S projectRoot (rlsScanner config)
                 else Inr \<lparr>issues = [], scannedAt = 0, duration = 0\<rparr>) of
             Inl e \<Rightarrow> (all1, Some e)
           | Inr rlsResult \<Rightarrow>
               (let all2 = all1 @ issues rlsResult in
                case callSQLInjection S projectRoot (scanDirs (rlsScanner config))
                       (extensions (rlsScanner config)) (excludeDirs (rlsScanner config)) of
                  Inl e \<Rightarrow> (all2, Some e)
                | Inr sqlResult \<Rightarrow>
                    (let all3 = all2 @ issues sqlResult in
                     case callAPIKeys S projectRoot [] (scanDirs (rlsScanner config))
                            (extensions (rlsScanner config)) (excludeDirs (rlsScanner config)) of
                       Inl e \<Rightarrow> (all3, Some e)
                     | Inr apiKeyResult \<Rightarrow> (all3 @ issues apiKeyResult, None)))))"

definition runFullScanWith ::
  "Scanners \<Rightarrow> string \<Rightarrow> VibeSecurityConfig \<Rightarrow> OrchState \<Rightarrow> SecurityIssue list \<times> OrchState" where
  "runFullScanWith S projectRoot config st =
     (if isScanning st then (latestIssues st, st)
      else
        (let st1 = st\<lparr>isScanning := True\<rparr> in
         case collectIssues S projectRoot config of
           (allIssues, None) \<Rightarrow>
             (let st2 = (if terminal (reporter config)
                         then st1\<lparr>terminalReports := terminalReports st1 @ [allIssues]\<rparr> else st1);
                  st3 = st2\<lparr>recipesPrinted := recipesPrinted st2 @ [allIssues]\<rparr>;
                  st4 = st3\<lparr>summariesWritten := summariesWritten st3 @ [allIssues]\<rparr>;
                  st5 = st4\<lparr>latestIssues := allIssues\<rparr>
              in (allIssues, st5\<lparr>isScanning := False\<rparr>))
         | (allIssues, Some err) \<Rightarrow>
             (let st2 = st1\<lparr>consoleErrors := consoleErrors st1 @ [''Tarama sirasinda hata: '' @ fault_message err]\<rparr>
              in (allIssues, st2\<lparr>isScanning := False\<rparr>))))"

text \<open>\<open>runFullScan\<close> with the scanners of this repository, over a platform and a clock.\<close>

definition repoScanners :: "Platform \<Rightarrow> nat \<Rightarrow> Scanners" where
  "repoScanners P now =
     \<lparr>callSecrets = scanSecrets P now,
      callRLS = scanRLS P now,
      callSQLInjection = scanSQLInjection P now,
      callAPIKeys = scanAPIKeys P now\<rparr>"

definition runFullScan ::
  "Platform \<Rightarrow> nat \<Rightarrow> string \<Rightarrow> VibeSecurityConfig \<Rightarrow> OrchState \<Rightarrow> SecurityIssue list \<times> OrchState" where
  "runFullScan P now projectRoot config st = runFullScanWith (repoScanners P now) projectRoot config st"

text \<open>\<open>getDefaultConfig\<close>: the policy used when the configuration file is absent or fails to load.\<close>

definition getDefaultConfig :: VibeSecurityConfig where
  "getDefaultConfig =
     \<lparr>cfg_enabled = True,
      secretScanner =
        \<lparr>envFiles = [''.env'', ''.env.local'', ''.env.development''],
         sensitivePatterns =
           [\<lparr>pattern = ''SUPABASE_SERVICE_ROLE_KEY'', pat_severity = critical,
             pat_message = ''Supabase Service Role Key istemci tarafina ifsa edilmemelidir.''\<rparr>,
            \<lparr>pattern = ''DATABASE_URL'', pat_severity = critical,
             pat_message = ''Veritabani baglanti string'i istemci tarafinda gorunmemelidir.''\<rparr>,
            \<lparr>pattern = ''SECRET'', pat_severity = critical,
             pat_message = ''SECRET iceren anahtarlar istemci tarafina ifsa edilmemelidir.''\<rparr>,
            \<lparr>pattern = ''PRIVATE_KEY'', pat_severity = critical,
             pat_message = ''Ozel anahtarlar istemci tarafina ifsa edilmemelidir.''\<rparr>]\<rparr>,
      rlsScanner =
        \<lparr>enabled = True,
         scanDirs = [''src''],
         extensions = [''.ts'', ''.tsx'', ''.js'', ''.jsx''],
         excludeDirs = [''node_modules'', ''.next'', ''dist''],
         supabaseUrl = [],
         supabaseServiceRoleKey = [],
         whitelistedTables = []\<rparr>,
      reporter = \<lparr>terminal = True, browserOverlay = True, overlayAutoCloseMs = 0, soundAlert = False\<rparr>,
      watcher = \<lparr>debounceMs = 500, additionalWatchPatterns = []\<rparr>\<rparr>"

definition getLatestIssues :: "OrchState \<Rightarrow> SecurityIssue list" where
  "getLatestIssues st = latestIssues st"

section \<open>Watch Scheduler (\<open>startWatchdog\<close> in index.ts)\<close>

text \<open>
  The scheduler over a simulated clock (milliseconds). The runtime keeps the set of armed
  timers, each with a handle and a deadline; the variable \<open>debounceTimer\<close> holds the handle
  returned by the last \<open>setTimeout\<close> and is never reset, as in the source. The trace records
  what the timer callback does, in order.
\<close>

datatype action = LoadConfig nat | RunFullScan nat

record WatchState =
  debounceTimer :: "nat option"
  armed :: "(nat \<times> nat) list"
    \<comment> \<open>the armed timers of the runtime, as (handle, deadline), in arming order\<close>
  nextHandle :: nat
  trace :: "action list"


text \<open>The callback given to \<open>setTimeout\<close>: \<open>loadConfig\<close>, then \<open>runFullScan\<close> with the fresh config.\<close>

definition timerCallback :: "nat \<Rightarrow> WatchState \<Rightarrow> WatchState" where
  "timerCallback t w = w\<lparr>trace := trace w @ [LoadConfig t, RunFullScan t]\<rparr>"





text \<open>The armed timers that are due at \<open>t\<close> fire, in the order of their deadlines.\<close>

definition fireTimers :: "(nat \<times> nat) list \<Rightarrow> WatchState \<Rightarrow> WatchState" where
  "fireTimers due w = foldl (\<lambda>w (h, deadline). timerCallback deadline w) w (sort_key snd due)"






section \<open>Command-line entry (security-watchdog.ts)\<close>

text \<open>
  \<open>runScan\<close> of the standalone script. Its scanning sections fill the array \<open>issues\<close>; the
  part modelled is what the function does around them: the configuration checks before, and
  the report, the summary and the exit after. \<open>collected\<close> is the array once the scanning
  sections and the .gitignore check have run.
\<close>

record CliIssue =
  cli_severity :: Severity
  cli_category :: string
  cli_title :: string
  cli_message :: string
  cli_file :: string

datatype cli_outcome = Exits nat | Returns

record CliRun =
  outcome :: cli_outcome
  scanned :: bool
  summaryOf :: "CliIssue list option"

definition runScan :: "VibeSecurityConfig option \<Rightarrow> CliIssue list \<Rightarrow> CliRun" where
  "runScan config collected =
     (case config of
        None \<Rightarrow> \<lparr>outcome = Exits 1, scanned = False, summaryOf = None\<rparr>
      | Some c \<Rightarrow>
          if \<not> cfg_enabled c then \<lparr>outcome = Returns, scanned = False, summaryOf = None\<rparr>
          else if length collected = 0
          then \<lparr>outcome = Returns, scanned = True, summaryOf = Some collected\<rparr>
          else
            (let criticalCount = length (filter (\<lambda>i. cli_severity i = critical) collected)
             in \<lparr>outcome = (if criticalCount > 0 then Exits 1 else Returns),
                 scanned = True, summaryOf = Some collected\<rparr>))"

text \<open>
  Without \<open>--watch\<close> the script ends when \<open>runScan\<close> returns, and the process exits with
  code 0; \<open>process.exit(n)\<close> exits with code \<open>n\<close>.
\<close>

fun exitCode :: "cli_outcome \<Rightarrow> nat" where
  "exitCode (Exits n) = n"
| "exitCode Returns = 0"

section \<open>A small project, for concrete runs\<close>

text \<open>
  A project at \<open>/p\<close> with one environment file, one source file of three lines and a
  \<open>.gitignore\<close> that does not mention \<open>.env\<close>. The answers of the regular-expression engine
  are those of the real expressions on these texts: the first source line builds SQL by
  concatenation, a template literal with an interpolation starts on it (at index 52) and
  ends on the second line, and the third line reads two tables. The authority is not
  reachable. The pattern \<open>(\<close> is a malformed regular expression.
\<close>

definition demoLine1 :: string where
  "demoLine1 = ''const q = \"SELECT * FROM t WHERE a=\" + a; const r = `SELECT *''"

definition demoLine2 :: string where
  "demoLine2 = '' FROM u WHERE id = ${id}`;''"

definition demoLine3 :: string where
  "demoLine3 = ''db.from('orders'); db.from('users');''"

definition demoSource :: string where
  "demoSource = demoLine1 @ [NL] @ demoLine2 @ [NL] @ demoLine3"

definition demoPlatform :: Platform where
  "demoPlatform =
     \<lparr>glob = (\<lambda>pat cwd ign.
               if cwd = ''/p'' \<and> pat = ''.env'' then [''/p/.env'']
               else if cwd = ''/p/src'' \<and> pat = ''**/*.ts'' then [''/p/src/a.ts'']
               else []),
      existsSync = (\<lambda>path. path = ''/p/src'' \<or> path = ''/p/.env'' \<or> path = ''/p/.gitignore''),
      readFileSync = (\<lambda>path.
               if path = ''/p/.env'' then Some ''NEXT_PUBLIC_DATABASE_URL=postgres://db''
               else if path = ''/p/src/a.ts'' then Some demoSource
               else if path = ''/p/.gitignore'' then Some ''node_modules''
               else None),
      pathJoin = (\<lambda>a b. a @ ''/'' @ b),
      relative = (\<lambda>from to. drop (length from + 1) to),
      compileI = (\<lambda>src. if src = ''('' then None else Some (\<lambda>subject. includesStr subject src)),
      testRe = (\<lambda>name subject. name = ''raw-sql-string-concat'' \<and> subject = demoLine1),
      execAll = (\<lambda>name text.
               if text = demoSource \<and> name = ''raw-sql-string-concat'' then [10]
               else if text = demoSource \<and> name = ''raw-sql-template-literal'' then [52]
               else []),
      fromCalls = (\<lambda>l. if l = demoLine3 then [''orders'', ''users''] else []),
      fetchCheckRls = (\<lambda>url k t. FetchThrows ''fetch failed''),
      fetchExecSql = (\<lambda>url k t. NotOk)\<rparr>"

definition idleState :: OrchState where
  "idleState =
     \<lparr>latestIssues = [gitignoreIssue 0], isScanning = False, consoleErrors = [],
      terminalReports = [], recipesPrinted = [], summariesWritten = []\<rparr>"

definition malformedPatternConfig :: VibeSecurityConfig where
  "malformedPatternConfig =
     getDefaultConfig\<lparr>secretScanner :=
       \<lparr>envFiles = [''.env''],
        sensitivePatterns = [\<lparr>pattern = ''('', pat_severity = critical, pat_message = ''never''\<rparr>]\<rparr>\<rparr>"

definition inFlightState :: OrchState where
  "inFlightState = idleState\<lparr>isScanning := True\<rparr>"

definition criticalCliIssue :: CliIssue where
  "criticalCliIssue =
     \<lparr>cli_severity = critical, cli_category = ''sql-injection'', cli_title = ''SQL INJECTION RISKI'',
      cli_message = ''Parametreli sorgu kullanin.'', cli_file = ''src/a.ts''\<rparr>"

definition warningCliIssue :: CliIssue where
  "warningCliIssue =
     \<lparr>cli_severity = warning, cli_category = ''general'', cli_title = ''.env dosyalari .gitignore'a eklenmemis!'',
      cli_message = ''.env dosyalariniz yanlislikla commit edilebilir.'', cli_file = ''.gitignore''\<rparr>"

section \<open>Notions used to state the properties of the Secret Scanner\<close>

text \<open>A pattern hits a key when it is well formed and matches the key or the stripped key.\<close>

definition sensitiveHit :: "Platform \<Rightarrow> string \<Rightarrow> SensitivePattern \<Rightarrow> bool" where
  "sensitiveHit P k p =
     (case compileI P (pattern p) of None \<Rightarrow> False | Some regex \<Rightarrow> regex k \<or> regex (stripPublic k))"

text \<open>The first pattern of the table that hits a key carrying the client-exposed marker.\<close>

definition exposedMatch :: "Platform \<Rightarrow> SensitivePattern list \<Rightarrow> string \<Rightarrow> SensitivePattern option" where
  "exposedMatch P pats k = (if startsWith k ''NEXT_PUBLIC_'' then find (sensitiveHit P k) pats else None)"

definition issuesOfEntry ::
  "Platform \<Rightarrow> nat \<Rightarrow> SensitivePattern list \<Rightarrow> entryMap \<Rightarrow> string \<Rightarrow> EnvEntry \<Rightarrow> SecurityIssue list" where
  "issuesOfEntry P now pats allEntries relativeFile e =
     (case exposedMatch P pats (ekey e) of
        None \<Rightarrow> []
      | Some m \<Rightarrow> [secretIssue now relativeFile e m allEntries])"

text \<open>The environment files of a project: \<open>uniqueFiles\<close> in \<open>scanSecrets\<close>.\<close>

definition envFilesFound :: "Platform \<Rightarrow> string \<Rightarrow> SecretScannerConfig \<Rightarrow> string list" where
  "envFilesFound P projectRoot config =
     uniq (concat (map (\<lambda>pat. glob P pat projectRoot []) (envFiles config)))"

text \<open>The secret-leak issues of a result that are located at a given file and line.\<close>

definition secretIssuesAt :: "ScanResult \<Rightarrow> string \<Rightarrow> nat \<Rightarrow> SecurityIssue list" where
  "secretIssuesAt res f l =
     filter (\<lambda>i. category i = secret_leak \<and> issue_file i = Some f \<and> issue_line i = Some l) (issues res)"

text \<open>The result carries the warning that \<open>.gitignore\<close> does not exclude the environment files.\<close>

definition gitignoreWarned :: "ScanResult \<Rightarrow> bool" where
  "gitignoreWarned res = list_ex (\<lambda>i. issue_id i = ''gitignore-env-missing'') (issues res)"

text \<open>Configurations and an entry of the small project.\<close>

definition twoPatternConfig :: SecretScannerConfig where
  "twoPatternConfig =
     \<lparr>envFiles = [''.env''],
      sensitivePatterns =
        [\<lparr>pattern = ''('', pat_severity = critical, pat_message = ''never''\<rparr>,
         \<lparr>pattern = ''DATABASE_URL'', pat_severity = critical, pat_message = ''db''\<rparr>]\<rparr>"

definition noEnvConfig :: SecretScannerConfig where
  "noEnvConfig = (secretScanner getDefaultConfig)\<lparr>envFiles := [''.env.production'']\<rparr>"

definition demoEntry :: EnvEntry where
  "demoEntry = \<lparr>ekey = ''NEXT_PUBLIC_DATABASE_URL'', evalue = ''postgres://db'', eline = 1\<rparr>"

section \<open>Timestamps\<close>

text \<open>An issue and a result with the creation time replaced.\<close>

definition stamp :: "nat \<Rightarrow> SecurityIssue \<Rightarrow> SecurityIssue" where
  "stamp now i = i\<lparr>timestamp := now\<rparr>"

definition restamp :: "nat \<Rightarrow> ScanResult \<Rightarrow> ScanResult" where
  "restamp now r = \<lparr>issues = map (stamp now) (issues r), scannedAt = now, duration = 0\<rparr>"

section \<open>Notions used to state the properties of the RLS scanners\<close>

text \<open>The status check could not consult the authority: it carries an error text.\<close>

definition statusFailed :: "RlsStatus \<Rightarrow> bool" where
  "statusFailed s = (case rls_error s of None \<Rightarrow> False | Some e \<Rightarrow> e \<noteq> [])"

text \<open>\<open>tableUsages\<close> in \<open>scanRLS\<close>: the tables referenced in the source tree, with their usages.\<close>

definition tableUsagesOf :: "Platform \<Rightarrow> string \<Rightarrow> RLSScannerConfig \<Rightarrow> (string \<times> Usage list) list" where
  "tableUsagesOf P projectRoot config =
     collectUsages P projectRoot
       (sourceFilesOf P projectRoot (scanDirs config) (extensions config) (excludeDirs config))"

text \<open>The issues of a scanner call; none if the call throws.\<close>

definition issuesOf :: "fault + ScanResult \<Rightarrow> SecurityIssue list" where
  "issuesOf r = (case r of Inl e \<Rightarrow> [] | Inr res \<Rightarrow> issues res)"

definition dbIssuesOf :: "fault + DbScanResult \<Rightarrow> DbIssue list" where
  "dbIssuesOf r = (case r of Inl e \<Rightarrow> [] | Inr res \<Rightarrow> db_issues res)"

definition returns :: "fault + 'a \<Rightarrow> bool" where
  "returns r = (case r of Inl e \<Rightarrow> False | Inr res \<Rightarrow> True)"

text \<open>
  The authority cannot be consulted about a table: the connection data is missing, or the
  network call fails, the one to \<open>check_rls_status\<close> or, after a response that is not ok, the
  one to \<open>exec_sql\<close>.
\<close>

definition authorityUnavailable :: "Platform \<Rightarrow> string \<Rightarrow> string \<Rightarrow> string \<Rightarrow> bool" where
  "authorityUnavailable P url serviceRoleKey tableName =
     (url = [] \<or> serviceRoleKey = []
      \<or> (case fetchCheckRls P url serviceRoleKey tableName of
            FetchThrows m \<Rightarrow> True
          | NotOk \<Rightarrow>
              (case fetchExecSql P url serviceRoleKey tableName of
                 FetchThrows m \<Rightarrow> True
               | NotOk \<Rightarrow> False
               | Ok b \<Rightarrow> False)
          | Ok b \<Rightarrow> False))"

text \<open>The error text of a status, if it has one, is a line of the message of the issue.\<close>

definition carriesReason :: "string \<Rightarrow> Usage list \<Rightarrow> RlsStatus \<Rightarrow> bool" where
  "carriesReason tableName usages rlsStatus =
     (case rls_error rlsStatus of
        None \<Rightarrow> False
      | Some e \<Rightarrow>
          e \<noteq> []
          \<and> ''!  '' @ e \<in> set (filter (\<lambda>l. l \<noteq> []) (rlsDisabledLines tableName usages rlsStatus)))"

text \<open>Databases and a configuration for concrete runs.\<close>

definition unreachableDb :: Database where
  "unreachableDb =
     \<lparr>newClientSsl = None, connectSsl = Some ''connect ECONNREFUSED'',
      newClientPlain = None, connectPlain = None, queryRows = Inr [], clientEnd = None\<rparr>"

definition demoDb :: Database where
  "demoDb =
     \<lparr>newClientSsl = None, connectSsl = None, newClientPlain = None, connectPlain = None,
      queryRows = Inr [\<lparr>table_name = ''orders'', row_rls_enabled = False, policy_count = 0\<rparr>,
                       \<lparr>table_name = ''users'', row_rls_enabled = False, policy_count = 0\<rparr>],
      clientEnd = None\<rparr>"

definition ordersWhitelisted :: RLSScannerConfig where
  "ordersWhitelisted = (rlsScanner getDefaultConfig)\<lparr>whitelistedTables := [''orders'']\<rparr>"

section \<open>Notions used to state the properties of the SQL-Injection Scanner\<close>


text \<open>The identity of a per-line issue.\<close>

definition lineId :: "string \<Rightarrow> nat \<Rightarrow> SqlPattern \<Rightarrow> string" where
  "lineId relativePath lineNum pat = ''sqli-'' @ pat_id pat @ ''-'' @ relativePath @ ''-'' @ showNat lineNum"


text \<open>The issues located at a line.\<close>

definition issuesAtLine :: "nat \<Rightarrow> SecurityIssue list \<Rightarrow> SecurityIssue list" where
  "issuesAtLine n found = filter (\<lambda>i. issue_line i = Some n) found"

text \<open>The identity of an issue of the whole-file pass.\<close>

definition multiId :: "string \<Rightarrow> nat \<Rightarrow> SqlPattern \<Rightarrow> string" where
  "multiId relativePath lineNum pat =
     ''sqli-multi-'' @ pat_id pat @ ''-'' @ relativePath @ ''-'' @ showNat lineNum"






section \<open>Notions used to state the properties of the Watch Scheduler\<close>


section \<open>Orchestrator: the in-flight guard\<close>

text \<open>
  Claim C1. If \<open>runFullScan\<close> is called while a prior scan is still in flight (the flag
  \<open>isScanning\<close> is set), the call starts no second scan: it returns the current
  \<open>latestIssues\<close> and leaves the whole orchestrator state as it was, whatever the scanners,
  the project and the configuration are.
\<close>

theorem runFullScan_in_flight_is_noop:
  "isScanning st \<Longrightarrow>
     runFullScanWith S projectRoot config st = (latestIssues st, st)
     \<and> runFullScan P now projectRoot config st = (latestIssues st, st)"
  by (simp add: runFullScan_def runFullScanWith_def)

theorem runFullScan_in_flight_is_noop_witness:
  "isScanning inFlightState
   \<and> runFullScan demoPlatform 7 ''/p'' getDefaultConfig inFlightState
       = ([gitignoreIssue 0], inFlightState)"
  using runFullScan_in_flight_is_noop
          [of inFlightState "repoScanners demoPlatform 7" "''/p''" getDefaultConfig demoPlatform 7]
  by (simp add: inFlightState_def idleState_def)

section \<open>Command line: the exit code\<close>

text \<open>
  Claim C8. When the standalone script has a configuration that is enabled, so that the scan
  runs to its end, the process exits with code 0 exactly when no collected issue is
  critical, and with a non-zero code exactly when at least one is.
\<close>

theorem runScan_exit_code:
  "cfg_enabled c \<Longrightarrow>
     scanned (runScan (Some c) collected)
     \<and> (exitCode (outcome (runScan (Some c) collected)) = 0
          \<longleftrightarrow> \<not> list_ex (\<lambda>i. cli_severity i = critical) collected)
     \<and> (exitCode (outcome (runScan (Some c) collected)) \<noteq> 0
          \<longleftrightarrow> list_ex (\<lambda>i. cli_severity i = critical) collected)"
  by (auto simp add: runScan_def Let_def list_ex_iff filter_empty_conv)

theorem runScan_exit_code_witness:
  "cfg_enabled getDefaultConfig
   \<and> exitCode (outcome (runScan (Some getDefaultConfig) [warningCliIssue, criticalCliIssue])) \<noteq> 0
   \<and> exitCode (outcome (runScan (Some getDefaultConfig) [warningCliIssue])) = 0"
  using runScan_exit_code [of getDefaultConfig "[warningCliIssue, criticalCliIssue]"]
        runScan_exit_code [of getDefaultConfig "[warningCliIssue]"]
  by (simp add: getDefaultConfig_def criticalCliIssue_def warningCliIssue_def)

section \<open>Secret Scanner: one issue per exposed sensitive entry\<close>

lemma firstSensitive_valid:
  "\<forall>p\<in>set pats. compileI P (pattern p) \<noteq> None \<Longrightarrow>
   firstSensitive P k (stripPublic k) pats = Inr (find (sensitiveHit P k) pats)"
  by (induction pats) (auto simp: sensitiveHit_def split: option.splits)

lemma matchesSensitivePattern_valid:
  "\<forall>p\<in>set pats. compileI P (pattern p) \<noteq> None \<Longrightarrow>
   matchesSensitivePattern P k pats = Inr (exposedMatch P pats k)"
  by (simp add: matchesSensitivePattern_def exposedMatch_def firstSensitive_valid)

lemma secretIssuesOfEntries_valid:
  "\<forall>p\<in>set pats. compileI P (pattern p) \<noteq> None \<Longrightarrow>
   secretIssuesOfEntries P now pats allEntries rel es
     = Inr (concat (map (issuesOfEntry P now pats allEntries rel) es))"
  by (induction es) (simp_all add: matchesSensitivePattern_valid issuesOfEntry_def)

lemma secretIssuesOfFiles_valid:
  "\<forall>p\<in>set pats. compileI P (pattern p) \<noteq> None \<Longrightarrow>
   secretIssuesOfFiles P now root pats allEntries fes
     = Inr (concat (map (\<lambda>(f, es). concat (map (issuesOfEntry P now pats allEntries (relative P root f)) es)) fes))"
  by (induction fes) (auto simp: secretIssuesOfEntries_valid)

lemma uniq_set [simp]: "set (uniq xs) = set xs"
  by (induction xs rule: uniq.induct) auto

lemma uniq_distinct [simp]: "distinct (uniq xs)"
  by (induction xs rule: uniq.induct) auto

lemma parseEnvLines_after: "e \<in> set (parseEnvLines ls i) \<Longrightarrow> i < eline e"
  by (induction ls i rule: parseEnvLines.induct)
     (auto simp: parseEnvLine_def Let_def split: if_splits option.splits)

lemma parseEnvLines_distinct: "distinct (map eline (parseEnvLines ls i))"
  by (induction ls i rule: parseEnvLines.induct)
     (auto simp: parseEnvLine_def Let_def split: if_splits option.splits dest: parseEnvLines_after)

lemma parseEnvFile_distinct: "distinct (map eline (parseEnvFile P f))"
  by (simp add: parseEnvFile_def parseEnvLines_distinct split: option.splits)

lemma filter_concat_key:
  "distinct (map g xs) \<Longrightarrow> x \<in> set xs \<Longrightarrow> (\<And>y i. y \<in> set xs \<Longrightarrow> i \<in> set (F y) \<Longrightarrow> h i = g y) \<Longrightarrow>
   filter (\<lambda>i. h i = g x) (concat (map F xs)) = F x"
proof (induction xs)
  case Nil
  then show ?case by simp
next
  case (Cons y ys)
  show ?case
  proof (cases "x = y")
    case True
    have "filter (\<lambda>i. h i = g y) (F y) = F y"
      using Cons.prems(3) [of y] by (simp add: filter_id_conv)
    moreover have "filter (\<lambda>i. h i = g y) (concat (map F ys)) = []"
    proof -
      have "h i \<noteq> g y" if mem: "i \<in> set (concat (map F ys))" for i
      proof -
        obtain z where z: "z \<in> set ys" "i \<in> set (F z)" using mem by auto
        then have "h i = g z" using Cons.prems(3) by simp
        moreover have "g z \<noteq> g y" using Cons.prems(1) z(1) by (force simp: image_iff)
        ultimately show ?thesis by simp
      qed
      then show ?thesis by (simp add: filter_empty_conv)
    qed
    ultimately show ?thesis using True by simp
  next
    case False
    then have x: "x \<in> set ys" using Cons.prems(2) by simp
    have "g y \<noteq> g x" using Cons.prems(1) x by (force simp: image_iff)
    then have "filter (\<lambda>i. h i = g x) (F y) = []"
      using Cons.prems(3) [of y] by (auto simp: filter_empty_conv)
    moreover have "filter (\<lambda>i. h i = g x) (concat (map F ys)) = F x"
    proof (rule Cons.IH)
      show "distinct (map g ys)" using Cons.prems(1) by simp
      show "x \<in> set ys" by (rule x)
      show "h i = g z" if "z \<in> set ys" "i \<in> set (F z)" for z i
        by (rule Cons.prems(3)) (use that in auto)
    qed
    ultimately show ?thesis by simp
  qed
qed

lemma issuesOfEntry_fields:
  "i \<in> set (issuesOfEntry P now pats allEntries rel e) \<Longrightarrow>
     category i = secret_leak \<and> issue_file i = Some rel \<and> issue_line i = Some (eline e)"
  by (auto simp: issuesOfEntry_def secretIssue_def Let_def split: option.splits)

lemma gitignoreCheck_cases:
  "gitignoreCheck P now root = [] \<or> gitignoreCheck P now root = [gitignoreIssue now]"
  by (simp add: gitignoreCheck_def Let_def split: option.splits)

lemma gitignoreCheck_category: "i \<in> set (gitignoreCheck P now root) \<Longrightarrow> category i = general"
  using gitignoreCheck_cases [of P now root] by (auto simp: gitignoreIssue_def)

lemma scanSecrets_valid:
  assumes "\<forall>p\<in>set (sensitivePatterns config). compileI P (pattern p) \<noteq> None"
    and "envFilesFound P root config \<noteq> []"
  shows "scanSecrets P now root config =
     Inr \<lparr>issues =
            concat (map (\<lambda>f. concat (map (issuesOfEntry P now (sensitivePatterns config)
                                  (collectEntries P root (map (\<lambda>f. (f, parseEnvFile P f)) (envFilesFound P root config)))
                                  (relative P root f)) (parseEnvFile P f)))
                        (envFilesFound P root config))
            @ gitignoreCheck P now root,
          scannedAt = now, duration = 0\<rparr>"
  using assms
  by (simp add: scanSecrets_def Let_def envFilesFound_def secretIssuesOfFiles_valid comp_def)

lemma secretIssuesAt_found:
  assumes inj: "inj_on (relative P root) (set (envFilesFound P root config))"
    and f: "filePath \<in> set (envFilesFound P root config)"
    and e: "entry \<in> set (parseEnvFile P filePath)"
  shows "secretIssuesAt
           \<lparr>issues =
              concat (map (\<lambda>f. concat (map (issuesOfEntry P now (sensitivePatterns config)
                                  (collectEntries P root (map (\<lambda>f. (f, parseEnvFile P f)) (envFilesFound P root config)))
                                  (relative P root f)) (parseEnvFile P f)))
                        (envFilesFound P root config))
              @ gitignoreCheck P now root,
            scannedAt = now, duration = 0\<rparr>
           (relative P root filePath) (eline entry)
         = issuesOfEntry P now (sensitivePatterns config)
             (collectEntries P root (map (\<lambda>f. (f, parseEnvFile P f)) (envFilesFound P root config)))
             (relative P root filePath) entry"
proof -
  let ?files = "envFilesFound P root config"
  let ?all = "collectEntries P root (map (\<lambda>f. (f, parseEnvFile P f)) ?files)"
  let ?E = "\<lambda>f. issuesOfEntry P now (sensitivePatterns config) ?all (relative P root f)"
  let ?F = "\<lambda>f. concat (map (?E f) (parseEnvFile P f))"
  let ?found = "concat (map ?F ?files)"
  let ?res = "\<lparr>issues = ?found @ gitignoreCheck P now root, scannedAt = now, duration = 0\<rparr>"
  have git: "filter (\<lambda>i. category i = secret_leak \<and> issue_file i = Some (relative P root filePath)
                          \<and> issue_line i = Some (eline entry)) (gitignoreCheck P now root) = []"
    by (auto simp: filter_empty_conv dest: gitignoreCheck_category)
  have secret: "category i = secret_leak" if "i \<in> set ?found" for i
    using that by (auto dest: issuesOfEntry_fields)
  have split: "filter (\<lambda>i. category i = secret_leak \<and> issue_file i = Some (relative P root filePath)
                          \<and> issue_line i = Some (eline entry)) ?found
             = filter (\<lambda>i. issue_line i = (Some \<circ> eline) entry)
                 (filter (\<lambda>i. issue_file i = (Some \<circ> relative P root) filePath) ?found)"
    using secret by (auto intro: filter_cong)
  have dfiles: "distinct (map (Some \<circ> relative P root) ?files)"
    using inj by (simp add: distinct_map envFilesFound_def inj_on_def comp_def)
  have byfile: "filter (\<lambda>i. issue_file i = (Some \<circ> relative P root) filePath) ?found = ?F filePath"
  proof (rule filter_concat_key [OF dfiles f])
    show "issue_file i = (Some \<circ> relative P root) y" if "y \<in> set ?files" "i \<in> set (?F y)" for y i
      using that by (auto dest: issuesOfEntry_fields)
  qed
  have dlines: "distinct (map (Some \<circ> eline) (parseEnvFile P filePath))"
    using parseEnvFile_distinct [of P filePath] by (simp add: distinct_map inj_on_def comp_def)
  have byline: "filter (\<lambda>i. issue_line i = (Some \<circ> eline) entry) (?F filePath) = ?E filePath entry"
  proof (rule filter_concat_key [OF dlines e])
    show "issue_line i = (Some \<circ> eline) y" if "y \<in> set (parseEnvFile P filePath)" "i \<in> set (?E filePath y)" for y i
      using that by (auto dest: issuesOfEntry_fields)
  qed
  have "secretIssuesAt ?res (relative P root filePath) (eline entry)
          = filter (\<lambda>i. category i = secret_leak \<and> issue_file i = Some (relative P root filePath)
                          \<and> issue_line i = Some (eline entry)) ?found"
    using git by (simp add: secretIssuesAt_def)
  also have "\<dots> = filter (\<lambda>i. issue_line i = (Some \<circ> eline) entry) (?F filePath)"
    by (simp only: split byfile)
  also have "\<dots> = ?E filePath entry"
    by (rule byline)
  finally show ?thesis .
qed

text \<open>What the loops compute when no constructor of a pattern throws on the way.\<close>

lemma firstSensitive_Inr:
  "firstSensitive P k (stripPublic k) pats = Inr r \<Longrightarrow> r = find (sensitiveHit P k) pats"
  by (induction pats) (auto simp: sensitiveHit_def split: option.splits if_splits)

lemma firstSensitive_Inl:
  "firstSensitive P k sk pats = Inl err \<Longrightarrow> list_ex (\<lambda>p. compileI P (pattern p) = None) pats"
  by (induction pats) (auto split: option.splits if_splits)

lemma matchesSensitivePattern_Inr:
  "matchesSensitivePattern P k pats = Inr r \<Longrightarrow> r = exposedMatch P pats k"
  by (auto simp: matchesSensitivePattern_def exposedMatch_def firstSensitive_Inr split: if_splits)

lemma matchesSensitivePattern_Inl:
  "matchesSensitivePattern P k pats = Inl err \<Longrightarrow> list_ex (\<lambda>p. compileI P (pattern p) = None) pats"
  by (auto simp: matchesSensitivePattern_def firstSensitive_Inl split: if_splits)

lemma secretIssuesOfEntries_Inr:
  "secretIssuesOfEntries P now pats allEntries rel es = Inr found \<Longrightarrow>
   found = concat (map (issuesOfEntry P now pats allEntries rel) es)"
proof (induction es arbitrary: found)
  case Nil
  then show ?case by simp
next
  case (Cons entry es)
  from Cons.prems obtain m rest where
    m: "matchesSensitivePattern P (ekey entry) pats = Inr m"
    and rest: "secretIssuesOfEntries P now pats allEntries rel es = Inr rest"
    and found: "found = (case m of None \<Rightarrow> []
                         | Some match \<Rightarrow> [secretIssue now rel entry match allEntries]) @ rest"
    by (auto split: sum.splits)
  have "m = exposedMatch P pats (ekey entry)" by (rule matchesSensitivePattern_Inr [OF m])
  then have "issuesOfEntry P now pats allEntries rel entry
               = (case m of None \<Rightarrow> []
                  | Some match \<Rightarrow> [secretIssue now rel entry match allEntries])"
    by (simp add: issuesOfEntry_def)
  moreover have "rest = concat (map (issuesOfEntry P now pats allEntries rel) es)"
    by (rule Cons.IH [OF rest])
  ultimately show ?case by (simp add: found)
qed

lemma secretIssuesOfEntries_Inl:
  "secretIssuesOfEntries P now pats allEntries rel es = Inl err \<Longrightarrow>
   list_ex (\<lambda>p. compileI P (pattern p) = None) pats"
  by (induction es) (auto split: sum.splits dest: matchesSensitivePattern_Inl)

lemma secretIssuesOfFiles_Inr:
  "secretIssuesOfFiles P now root pats allEntries fes = Inr found \<Longrightarrow>
   found = concat (map (\<lambda>(f, es). concat (map (issuesOfEntry P now pats allEntries (relative P root f)) es)) fes)"
proof (induction fes arbitrary: found)
  case Nil
  then show ?case by simp
next
  case (Cons fe fes)
  obtain f es where fe: "fe = (f, es)" by (cases fe)
  from Cons.prems obtain here others where
    here: "secretIssuesOfEntries P now pats allEntries (relative P root f) es = Inr here"
    and others: "secretIssuesOfFiles P now root pats allEntries fes = Inr others"
    and found: "found = here @ others"
    by (auto simp: fe split: sum.splits)
  show ?case
    by (simp add: fe found secretIssuesOfEntries_Inr [OF here] Cons.IH [OF others])
qed

lemma secretIssuesOfFiles_Inl:
  "secretIssuesOfFiles P now root pats allEntries fes = Inl err \<Longrightarrow>
   list_ex (\<lambda>p. compileI P (pattern p) = None) pats"
  by (induction fes) (auto split: sum.splits dest: secretIssuesOfEntries_Inl)

lemma scanSecrets_Inr:
  assumes "scanSecrets P now root config = Inr res"
    and "envFilesFound P root config \<noteq> []"
  shows "res =
     \<lparr>issues =
        concat (map (\<lambda>f. concat (map (issuesOfEntry P now (sensitivePatterns config)
                              (collectEntries P root (map (\<lambda>f. (f, parseEnvFile P f)) (envFilesFound P root config)))
                              (relative P root f)) (parseEnvFile P f)))
                    (envFilesFound P root config))
        @ gitignoreCheck P now root,
      scannedAt = now, duration = 0\<rparr>"
proof -
  let ?fes = "map (\<lambda>f. (f, parseEnvFile P f)) (envFilesFound P root config)"
  from assms obtain found where
    found: "secretIssuesOfFiles P now root (sensitivePatterns config)
              (collectEntries P root ?fes) ?fes = Inr found"
    and res: "res = \<lparr>issues = found @ gitignoreCheck P now root, scannedAt = now, duration = 0\<rparr>"
    by (auto simp: scanSecrets_def Let_def envFilesFound_def split: sum.splits)
  show ?thesis
    by (simp add: res secretIssuesOfFiles_Inr [OF found] comp_def)
qed

lemma scanSecrets_Inl:
  "scanSecrets P now root config = Inl err \<Longrightarrow>
   list_ex (\<lambda>p. compileI P (pattern p) = None) (sensitivePatterns config)"
  by (auto simp: scanSecrets_def Let_def split: if_splits sum.splits dest: secretIssuesOfFiles_Inl)

lemma demo_parse: "parseEnvFile demoPlatform ''/p/.env'' = [demoEntry]"
  by (simp add: parseEnvFile_def demoPlatform_def splitLines_def parseEnvLine_def trim_def isSpace_def
      startsWith_def stripExport_def stripQuotes_def isQuote_def NL_def CR_def demoEntry_def Let_def)

lemma demo_files: "envFilesFound demoPlatform ''/p'' (secretScanner getDefaultConfig) = [''/p/.env'']"
  by (simp add: envFilesFound_def demoPlatform_def getDefaultConfig_def)

text \<open>A no-break space around a definition is trimmed like any other white space.\<close>

lemma parseEnvLine_no_break_space:
  "parseEnvLine (CHR 0xA0 # ''NEXT_PUBLIC_DATABASE_URL=postgres://db'' @ [CHR 0xA0]) 0 = [demoEntry]"
  by code_simp

text \<open>
  Claim C4, as stated, fails when a pattern of the table is not a well-formed regular
  expression: in the small project the entry \<open>NEXT_PUBLIC_DATABASE_URL\<close> carries the marker
  and is hit by the second pattern, but the constructor of the first pattern throws, so
  \<open>scanSecrets\<close> yields a fault and no issue at all.
\<close>

theorem scanSecrets_malformed_pattern_counterexample:
  "demoEntry \<in> set (parseEnvFile demoPlatform ''/p/.env'')
   \<and> ''/p/.env'' \<in> set (envFilesFound demoPlatform ''/p'' twoPatternConfig)
   \<and> startsWith (ekey demoEntry) ''NEXT_PUBLIC_''
   \<and> list_ex (sensitiveHit demoPlatform (ekey demoEntry)) (sensitivePatterns twoPatternConfig)
   \<and> scanSecrets demoPlatform 0 ''/p'' twoPatternConfig = Inl (Fault ''Invalid regular expression'')"
proof -
  have 1: "demoEntry \<in> set (parseEnvFile demoPlatform ''/p/.env'')" by (simp add: demo_parse)
  have 2: "envFilesFound demoPlatform ''/p'' twoPatternConfig = [''/p/.env'']"
    by (simp add: envFilesFound_def demoPlatform_def twoPatternConfig_def)
  have 3: "startsWith (ekey demoEntry) ''NEXT_PUBLIC_''" by (simp add: demoEntry_def startsWith_def)
  have 4: "list_ex (sensitiveHit demoPlatform (ekey demoEntry)) (sensitivePatterns twoPatternConfig)"
    by (simp add: twoPatternConfig_def sensitiveHit_def demoPlatform_def demoEntry_def startsWith_def)
  have 5: "scanSecrets demoPlatform 0 ''/p'' twoPatternConfig = Inl (Fault ''Invalid regular expression'')"
    using 2 by (simp add: scanSecrets_def Let_def envFilesFound_def demo_parse matchesSensitivePattern_def
                  demoEntry_def startsWith_def twoPatternConfig_def)
       (simp add: demoPlatform_def)
  show ?thesis using 1 2 3 4 5 by simp
qed

text \<open>
  Claim C4, amended. Let \<open>path.relative\<close> tell the environment files apart, and take a
  parsed entry of an environment file. \<open>scanSecrets\<close> throws only if some pattern of the
  table is not a well-formed regular expression. When it returns a result: if the key of
  the entry starts with \<open>NEXT_PUBLIC_\<close> and some pattern hits the key or the stripped key,
  the result holds exactly one secret-leak issue at the entry's file and line; it carries
  the entry's key and the severity of the first pattern of the table that hits. Otherwise,
  in particular when the key lacks the marker, the result holds no secret-leak issue at
  that file and line.
\<close>

theorem scanSecrets_exposed_entry:
  assumes inj: "inj_on (relative P root) (set (envFilesFound P root config))"
    and f: "filePath \<in> set (envFilesFound P root config)"
    and e: "entry \<in> set (parseEnvFile P filePath)"
  shows "case scanSecrets P now root config of
      Inl err \<Rightarrow> list_ex (\<lambda>p. compileI P (pattern p) = None) (sensitivePatterns config)
    | Inr res \<Rightarrow>
        (if startsWith (ekey entry) ''NEXT_PUBLIC_''
            \<and> list_ex (sensitiveHit P (ekey entry)) (sensitivePatterns config)
         then \<exists>p i. find (sensitiveHit P (ekey entry)) (sensitivePatterns config) = Some p
                    \<and> sensitiveHit P (ekey entry) p
                    \<and> secretIssuesAt res (relative P root filePath) (eline entry) = [i]
                    \<and> severity i = pat_severity p
                    \<and> issue_key i = Some (ekey entry)
         else secretIssuesAt res (relative P root filePath) (eline entry) = [])"
proof (cases "scanSecrets P now root config")
  case (Inl err)
  then show ?thesis by (simp add: scanSecrets_Inl)
next
  case (Inr res)
  have ne: "envFilesFound P root config \<noteq> []" using f by auto
  have at: "secretIssuesAt res (relative P root filePath) (eline entry)
               = issuesOfEntry P now (sensitivePatterns config)
                   (collectEntries P root (map (\<lambda>f. (f, parseEnvFile P f)) (envFilesFound P root config)))
                   (relative P root filePath) entry"
    unfolding scanSecrets_Inr [OF Inr ne] by (rule secretIssuesAt_found [OF inj f e])
  show ?thesis
  proof (cases "startsWith (ekey entry) ''NEXT_PUBLIC_''
                 \<and> list_ex (sensitiveHit P (ekey entry)) (sensitivePatterns config)")
    case True
    from True obtain p where p: "find (sensitiveHit P (ekey entry)) (sensitivePatterns config) = Some p"
      by (cases "find (sensitiveHit P (ekey entry)) (sensitivePatterns config)")
         (auto simp: find_None_iff list_ex_iff)
    moreover have "sensitiveHit P (ekey entry) p"
      using p by (auto simp: find_Some_iff)
    ultimately show ?thesis
      using True Inr at by (simp add: issuesOfEntry_def exposedMatch_def secretIssue_def Let_def)
  next
    case False
    then have "exposedMatch P (sensitivePatterns config) (ekey entry) = None"
      by (auto simp: exposedMatch_def find_None_iff list_ex_iff)
    then show ?thesis
      using False Inr at by (simp add: issuesOfEntry_def)
  qed
qed

theorem scanSecrets_exposed_entry_witness:
  "inj_on (relative demoPlatform ''/p'')
         (set (envFilesFound demoPlatform ''/p'' (secretScanner getDefaultConfig)))
   \<and> ''/p/.env'' \<in> set (envFilesFound demoPlatform ''/p'' (secretScanner getDefaultConfig))
   \<and> demoEntry \<in> set (parseEnvFile demoPlatform ''/p/.env'')
   \<and> (\<exists>res i. scanSecrets demoPlatform 0 ''/p'' (secretScanner getDefaultConfig) = Inr res
          \<and> secretIssuesAt res ''.env'' 1 = [i]
          \<and> severity i = critical
          \<and> issue_key i = Some ''NEXT_PUBLIC_DATABASE_URL'')"
proof -
  have valid: "\<forall>p\<in>set (sensitivePatterns (secretScanner getDefaultConfig)). compileI demoPlatform (pattern p) \<noteq> None"
    by (simp add: getDefaultConfig_def demoPlatform_def)
  have inj: "inj_on (relative demoPlatform ''/p'')
               (set (envFilesFound demoPlatform ''/p'' (secretScanner getDefaultConfig)))"
    by (simp add: demo_files)
  have f: "''/p/.env'' \<in> set (envFilesFound demoPlatform ''/p'' (secretScanner getDefaultConfig))"
    by (simp add: demo_files)
  have e: "demoEntry \<in> set (parseEnvFile demoPlatform ''/p/.env'')"
    by (simp add: demo_parse)
  have ne: "envFilesFound demoPlatform ''/p'' (secretScanner getDefaultConfig) \<noteq> []"
    by (simp add: demo_files)
  obtain res where res: "scanSecrets demoPlatform 0 ''/p'' (secretScanner getDefaultConfig) = Inr res"
    using scanSecrets_valid [OF valid ne] by blast
  have hit: "startsWith (ekey demoEntry) ''NEXT_PUBLIC_''
             \<and> list_ex (sensitiveHit demoPlatform (ekey demoEntry))
                   (sensitivePatterns (secretScanner getDefaultConfig))"
    by (simp add: getDefaultConfig_def sensitiveHit_def demoPlatform_def demoEntry_def startsWith_def)
  have sev: "\<forall>p\<in>set (sensitivePatterns (secretScanner getDefaultConfig)). pat_severity p = critical"
    by (simp add: getDefaultConfig_def)
  have rel: "relative demoPlatform ''/p'' ''/p/.env'' = ''.env''" by (simp add: demoPlatform_def)
  from scanSecrets_exposed_entry [OF inj f e, of 0] hit res
  obtain p i where
    "find (sensitiveHit demoPlatform (ekey demoEntry)) (sensitivePatterns (secretScanner getDefaultConfig)) = Some p"
    "secretIssuesAt res ''.env'' 1 = [i]" "severity i = pat_severity p" "issue_key i = Some (ekey demoEntry)"
    by (auto simp: rel demoEntry_def)
  moreover have "pat_severity p = critical"
    using calculation(1) sev by (auto simp: find_Some_iff)
  ultimately have "\<exists>res i. scanSecrets demoPlatform 0 ''/p'' (secretScanner getDefaultConfig) = Inr res
          \<and> secretIssuesAt res ''.env'' 1 = [i]
          \<and> severity i = critical
          \<and> issue_key i = Some ''NEXT_PUBLIC_DATABASE_URL''"
    using res by (auto simp: demoEntry_def)
  with inj f e show ?thesis by simp
qed

section \<open>Secret Scanner: no environment file, no ignore file\<close>


lemma secretIssuesOfEntries_ids:
  "secretIssuesOfEntries P now pats allEntries rel es = Inr xs \<Longrightarrow> i \<in> set xs \<Longrightarrow>
     issue_id i \<noteq> ''gitignore-env-missing''"
  by (induction es arbitrary: xs)
     (auto simp: secretIssue_def Let_def split: sum.splits option.splits)

lemma secretIssuesOfFiles_ids:
  "secretIssuesOfFiles P now root pats allEntries fes = Inr xs \<Longrightarrow> i \<in> set xs \<Longrightarrow>
     issue_id i \<noteq> ''gitignore-env-missing''"
proof (induction fes arbitrary: xs)
  case Nil
  then show ?case by simp
next
  case (Cons fe fes)
  obtain f es where fe: "fe = (f, es)" by (cases fe)
  from Cons.prems(1) obtain here others
    where here: "secretIssuesOfEntries P now pats allEntries (relative P root f) es = Inr here"
      and others: "secretIssuesOfFiles P now root pats allEntries fes = Inr others"
      and xs: "xs = here @ others"
    by (auto simp: fe split: sum.splits)
  from Cons.prems(2) xs consider "i \<in> set here" | "i \<in> set others" by auto
  then show ?case
  proof cases
    case 1
    then show ?thesis by (rule secretIssuesOfEntries_ids [OF here])
  next
    case 2
    then show ?thesis by (rule Cons.IH [OF others])
  qed
qed

lemma gitignoreCheck_nonempty:
  "gitignoreCheck P now root \<noteq> [] \<Longrightarrow>
     existsSync P (pathJoin P root ''.gitignore'')
     \<and> (\<exists>content. readFileSync P (pathJoin P root ''.gitignore'') = Some content
                    \<and> \<not> includesStr content ''.env'')"
  by (auto simp: gitignoreCheck_def Let_def split: if_splits option.splits)

lemma gitignoreWarned_iff:
  assumes "scanSecrets P now root config = Inr res"
  shows "gitignoreWarned res \<longleftrightarrow> envFilesFound P root config \<noteq> [] \<and> gitignoreCheck P now root \<noteq> []"
proof (cases "envFilesFound P root config = []")
  case True
  then show ?thesis
    using assms by (auto simp: scanSecrets_def Let_def envFilesFound_def gitignoreWarned_def)
next
  case False
  then obtain found where found: "secretIssuesOfFiles P now root (sensitivePatterns config)
        (collectEntries P root (map (\<lambda>f. (f, parseEnvFile P f)) (envFilesFound P root config)))
        (map (\<lambda>f. (f, parseEnvFile P f)) (envFilesFound P root config)) = Inr found"
    and res: "issues res = found @ gitignoreCheck P now root"
    using assms by (auto simp: scanSecrets_def Let_def envFilesFound_def split: sum.splits)
  have "\<not> list_ex (\<lambda>i. issue_id i = ''gitignore-env-missing'') found"
    using secretIssuesOfFiles_ids [OF found] by (auto simp: list_ex_iff)
  moreover have "list_ex (\<lambda>i. issue_id i = ''gitignore-env-missing'') (gitignoreCheck P now root)
                   \<longleftrightarrow> gitignoreCheck P now root \<noteq> []"
    using gitignoreCheck_cases [of P now root] by (auto simp: gitignoreIssue_def)
  ultimately show ?thesis using False by (simp add: gitignoreWarned_def res list_ex_iff) blast
qed

text \<open>
  Claim C10. If no file matches any of the configured \<open>envFiles\<close> patterns, \<open>scanSecrets\<close>
  returns a result with an empty issue list, so without the warning about \<open>.gitignore\<close>. The
  warning is not emitted either when the project has no \<open>.gitignore\<close>: whenever a result
  carries it, an environment file was found, \<open>.gitignore\<close> exists and is readable, and its
  content does not mention \<open>.env\<close>.
\<close>

theorem scanSecrets_no_env_files:
  "(envFilesFound P root config = [] \<longrightarrow>
      scanSecrets P now root config = Inr \<lparr>issues = [], scannedAt = now, duration = 0\<rparr>)
   \<and> (scanSecrets P now root config = Inr res \<longrightarrow> \<not> existsSync P (pathJoin P root ''.gitignore'') \<longrightarrow>
        \<not> gitignoreWarned res)
   \<and> (scanSecrets P now root config = Inr res \<longrightarrow> gitignoreWarned res \<longrightarrow>
        envFilesFound P root config \<noteq> []
        \<and> existsSync P (pathJoin P root ''.gitignore'')
        \<and> (\<exists>content. readFileSync P (pathJoin P root ''.gitignore'') = Some content
                       \<and> \<not> includesStr content ''.env''))"
proof (intro conjI impI)
  assume "envFilesFound P root config = []"
  then show "scanSecrets P now root config = Inr \<lparr>issues = [], scannedAt = now, duration = 0\<rparr>"
    by (simp add: scanSecrets_def envFilesFound_def Let_def)
next
  assume r: "scanSecrets P now root config = Inr res"
    and n: "\<not> existsSync P (pathJoin P root ''.gitignore'')"
  have "gitignoreCheck P now root = []" using n by (simp add: gitignoreCheck_def Let_def)
  then show "\<not> gitignoreWarned res" using gitignoreWarned_iff [OF r] by simp
next
  assume r: "scanSecrets P now root config = Inr res" and w: "gitignoreWarned res"
  from gitignoreWarned_iff [OF r] w
  have ne: "envFilesFound P root config \<noteq> []" and g: "gitignoreCheck P now root \<noteq> []" by simp_all
  show "envFilesFound P root config \<noteq> []" by (rule ne)
  from gitignoreCheck_nonempty [OF g]
  show "existsSync P (pathJoin P root ''.gitignore'')"
    and "\<exists>content. readFileSync P (pathJoin P root ''.gitignore'') = Some content
                       \<and> \<not> includesStr content ''.env''" by simp_all
qed

theorem scanSecrets_no_env_files_witness:
  "envFilesFound demoPlatform ''/p'' noEnvConfig = []
   \<and> scanSecrets demoPlatform 0 ''/p'' noEnvConfig = Inr \<lparr>issues = [], scannedAt = 0, duration = 0\<rparr>
   \<and> (\<exists>res. scanSecrets demoPlatform 0 ''/p'' (secretScanner getDefaultConfig) = Inr res
          \<and> gitignoreWarned res
          \<and> existsSync demoPlatform (pathJoin demoPlatform ''/p'' ''.gitignore'')
          \<and> readFileSync demoPlatform (pathJoin demoPlatform ''/p'' ''.gitignore'') = Some ''node_modules'')"
proof -
  have none: "envFilesFound demoPlatform ''/p'' noEnvConfig = []"
    by (simp add: envFilesFound_def noEnvConfig_def demoPlatform_def)
  have valid: "\<forall>p\<in>set (sensitivePatterns (secretScanner getDefaultConfig)). compileI demoPlatform (pattern p) \<noteq> None"
    by (simp add: getDefaultConfig_def demoPlatform_def)
  have some: "envFilesFound demoPlatform ''/p'' (secretScanner getDefaultConfig) \<noteq> []"
    by (simp add: demo_files)
  obtain res where res: "scanSecrets demoPlatform 0 ''/p'' (secretScanner getDefaultConfig) = Inr res"
    using scanSecrets_valid [OF valid some] by blast
  have check: "gitignoreCheck demoPlatform 0 ''/p'' = [gitignoreIssue 0]"
    by (simp add: gitignoreCheck_def demoPlatform_def Let_def startsWith_def)
  have warned: "gitignoreWarned res"
    using gitignoreWarned_iff [OF res] some check by simp
  have content: "readFileSync demoPlatform (pathJoin demoPlatform ''/p'' ''.gitignore'') = Some ''node_modules''"
    by (simp add: demoPlatform_def)
  from scanSecrets_no_env_files [of demoPlatform "''/p''" noEnvConfig 0 res] none
  have empty: "scanSecrets demoPlatform 0 ''/p'' noEnvConfig = Inr \<lparr>issues = [], scannedAt = 0, duration = 0\<rparr>"
    by simp
  from scanSecrets_no_env_files [of demoPlatform "''/p''" "secretScanner getDefaultConfig" 0 res] res warned
  have "existsSync demoPlatform (pathJoin demoPlatform ''/p'' ''.gitignore'')" by simp
  with none empty res warned content show ?thesis by blast
qed

section \<open>Orchestrator: a scanner that throws\<close>

lemma demo_malformed_collect:
  "collectIssues (repoScanners demoPlatform now) ''/p'' malformedPatternConfig
     = ([], Some (Fault ''Invalid regular expression''))"
proof -
  have g: "glob demoPlatform ''.env'' ''/p'' [] = [''/p/.env'']"
    by (simp add: demoPlatform_def)
  have r: "relative demoPlatform ''/p'' ''/p/.env'' = ''.env''"
    by (simp add: demoPlatform_def)
  have c: "compileI demoPlatform ''('' = None"
    by (simp add: demoPlatform_def)
  have m: "matchesSensitivePattern demoPlatform (ekey demoEntry)
             [\<lparr>pattern = ''('', pat_severity = critical, pat_message = ''never''\<rparr>]
           = Inl (Fault ''Invalid regular expression'')"
    by (simp add: matchesSensitivePattern_def demoEntry_def startsWith_def c)
  have "scanSecrets demoPlatform now ''/p'' (secretScanner malformedPatternConfig)
          = Inl (Fault ''Invalid regular expression'')"
    by (simp add: scanSecrets_def Let_def malformedPatternConfig_def g r demo_parse m)
  then show ?thesis by (simp add: collectIssues_def repoScanners_def)
qed

text \<open>
  Claim C2, as stated, fails. In the small project with a malformed sensitive pattern the
  Secret Scanner throws before any issue is collected. The run logs the fault and returns
  the empty list, but \<open>latestIssues\<close> still holds the list of the previous run: the
  assignment to \<open>latestIssues\<close> is the last statement of the \<open>try\<close> block and is skipped.
\<close>

theorem runFullScan_fault_counterexample:
  "\<not> isScanning idleState
   \<and> collectIssues (repoScanners demoPlatform 5) ''/p'' malformedPatternConfig
       = ([], Some (Fault ''Invalid regular expression''))
   \<and> fst (runFullScan demoPlatform 5 ''/p'' malformedPatternConfig idleState) = []
   \<and> latestIssues (snd (runFullScan demoPlatform 5 ''/p'' malformedPatternConfig idleState))
       = [gitignoreIssue 0]"
  by (simp add: runFullScan_def runFullScanWith_def demo_malformed_collect idleState_def)

text \<open>
  Claim C2, amended. A run that starts while no scan is in flight returns the issues the
  scanners collected and clears the in-flight flag. If no scanner throws, \<open>latestIssues\<close>
  is replaced by these issues and the summary is written from them. If a scanner throws,
  the orchestrator logs the fault and returns the issues collected before it, but leaves
  \<open>latestIssues\<close> as it was and writes no summary.
\<close>

theorem runFullScan_fault_keeps_latest:
  "\<not> isScanning st \<Longrightarrow>
   collectIssues S root config = (collected, thrown) \<Longrightarrow>
   runFullScanWith S root config st = (returned, st') \<Longrightarrow>
     returned = collected \<and> \<not> isScanning st'
     \<and> (case thrown of
           None \<Rightarrow> latestIssues st' = collected \<and> consoleErrors st' = consoleErrors st
                    \<and> summariesWritten st' = summariesWritten st @ [collected]
         | Some err \<Rightarrow> latestIssues st' = latestIssues st
                    \<and> consoleErrors st' = consoleErrors st @ [''Tarama sirasinda hata: '' @ fault_message err]
                    \<and> summariesWritten st' = summariesWritten st)"
  by (auto simp: runFullScanWith_def Let_def split: option.splits)

theorem runFullScan_fault_keeps_latest_witness:
  "\<not> isScanning idleState
   \<and> collectIssues (repoScanners demoPlatform 5) ''/p'' malformedPatternConfig
       = ([], Some (Fault ''Invalid regular expression''))
   \<and> latestIssues (snd (runFullScanWith (repoScanners demoPlatform 5) ''/p'' malformedPatternConfig idleState))
       = latestIssues idleState
   \<and> consoleErrors (snd (runFullScanWith (repoScanners demoPlatform 5) ''/p'' malformedPatternConfig idleState))
       = [''Tarama sirasinda hata: Invalid regular expression'']"
proof -
  have idle: "\<not> isScanning idleState" by (simp add: idleState_def)
  from runFullScan_fault_keeps_latest [OF idle demo_malformed_collect [of 5],
      where returned = "fst (runFullScanWith (repoScanners demoPlatform 5) ''/p'' malformedPatternConfig idleState)"
        and st' = "snd (runFullScanWith (repoScanners demoPlatform 5) ''/p'' malformedPatternConfig idleState)"]
  show ?thesis using idle demo_malformed_collect by (simp add: idleState_def)
qed

section \<open>Orchestrator: the same issue identities on every run\<close>

text \<open>The issues of every scanner depend on the clock through their timestamp only.\<close>

lemma stamp_fields [simp]:
  "issue_id (stamp now i) = issue_id i"
  "issue_file (stamp now i) = issue_file i"
  "issue_line (stamp now i) = issue_line i"
  by (simp_all add: stamp_def)

lemma list_ex_stamp [simp]:
  "list_ex (\<lambda>i. issue_id i = x) (map (stamp now) found) = list_ex (\<lambda>i. issue_id i = x) found"
  "list_ex (\<lambda>i. issue_file i = f \<and> issue_line i = l) (map (stamp now) found)
     = list_ex (\<lambda>i. issue_file i = f \<and> issue_line i = l) found"
  by (simp_all add: list_ex_iff)

lemma secretIssue_stamp: "secretIssue now r e m a = stamp now (secretIssue 0 r e m a)"
  by (simp add: secretIssue_def stamp_def Let_def)

lemma secretIssuesOfEntries_stamp:
  "secretIssuesOfEntries P now pats a rel es
     = map_sum id (map (stamp now)) (secretIssuesOfEntries P 0 pats a rel es)"
  by (induction es) (auto simp: secretIssue_stamp [of now] split: sum.splits option.splits)

lemma secretIssuesOfFiles_stamp:
  "secretIssuesOfFiles P now root pats a fes
     = map_sum id (map (stamp now)) (secretIssuesOfFiles P 0 root pats a fes)"
  by (induction fes) (auto simp: secretIssuesOfEntries_stamp [of P now] split: sum.splits)

lemma gitignoreCheck_stamp: "gitignoreCheck P now root = map (stamp now) (gitignoreCheck P 0 root)"
  by (simp add: gitignoreCheck_def gitignoreIssue_def stamp_def Let_def split: option.splits)

lemma scanSecrets_stamp:
  "scanSecrets P now root c = map_sum id (restamp now) (scanSecrets P 0 root c)"
  by (simp add: scanSecrets_def Let_def restamp_def secretIssuesOfFiles_stamp [of P now]
        gitignoreCheck_stamp [of P now] split: sum.splits)

lemma rlsIssuesForTable_stamp:
  "rlsIssuesForTable now t us s = map (stamp now) (rlsIssuesForTable 0 t us s)"
  by (simp add: rlsIssuesForTable_def rlsDisabledIssue_def rlsNoAuthIssue_def stamp_def)

lemma rlsLoop_stamp: "rlsLoop P now c ch tu = map (stamp now) (rlsLoop P 0 c ch tu)"
proof (induction tu arbitrary: ch)
  case Nil
  then show ?case by simp
next
  case (Cons tus rest)
  obtain t us where tus: "tus = (t, us)" by (cases tus)
  show ?case
    by (simp add: tus Cons.IH rlsIssuesForTable_stamp [of now])
qed

lemma scanRLS_stamp: "scanRLS P now root c = map_sum id (restamp now) (scanRLS P 0 root c)"
  by (simp add: scanRLS_def Let_def restamp_def rlsLoop_stamp [of P now])

lemma sqliLineIssue_stamp: "sqliLineIssue now p r n l = stamp now (sqliLineIssue 0 p r n l)"
  by (simp add: sqliLineIssue_def stamp_def)

lemma sqliMultiIssue_stamp: "sqliMultiIssue now p r n = stamp now (sqliMultiIssue 0 p r n)"
  by (simp add: sqliMultiIssue_def stamp_def)

lemma perLinePatterns_stamp:
  "perLinePatterns P now rel n l (map (stamp now) found) pats
     = map (stamp now) (perLinePatterns P 0 rel n l found pats)"
proof (induction pats arbitrary: found)
  case Nil
  then show ?case by simp
next
  case (Cons p ps)
  have "perLinePatterns P now rel n l (map (stamp now) found @ [sqliLineIssue now p rel n l]) ps
          = map (stamp now) (perLinePatterns P 0 rel n l (found @ [sqliLineIssue 0 p rel n l]) ps)"
    using Cons.IH [of "found @ [sqliLineIssue 0 p rel n l]"] by (simp add: sqliLineIssue_stamp [of now])
  then show ?case by (simp add: Cons.IH Let_def)
qed

lemma perLinePass_stamp:
  "perLinePass P now rel idx (map (stamp now) found) ls
     = map (stamp now) (perLinePass P 0 rel idx found ls)"
  by (induction ls arbitrary: idx found) (simp_all add: perLinePatterns_stamp)

lemma multiMatches_stamp:
  "multiMatches now rel c p (map (stamp now) found) idxs
     = map (stamp now) (multiMatches 0 rel c p found idxs)"
proof (induction idxs arbitrary: found)
  case Nil
  then show ?case by simp
next
  case (Cons k ks)
  have "multiMatches now rel c p (map (stamp now) found @ [sqliMultiIssue now p rel (lineOfIndex c k)]) ks
          = map (stamp now) (multiMatches 0 rel c p (found @ [sqliMultiIssue 0 p rel (lineOfIndex c k)]) ks)"
    using Cons.IH [of "found @ [sqliMultiIssue 0 p rel (lineOfIndex c k)]"]
    by (simp add: sqliMultiIssue_stamp [of now])
  then show ?case by (simp add: Cons.IH Let_def)
qed

lemma multiPass_stamp:
  "multiPass P now rel c (map (stamp now) found) pats
     = map (stamp now) (multiPass P 0 rel c found pats)"
  by (induction pats arbitrary: found) (simp_all add: multiMatches_stamp)

lemma scanFileForSQLInjection_stamp:
  "scanFileForSQLInjection P now f root = map (stamp now) (scanFileForSQLInjection P 0 f root)"
proof (cases "readFileSync P f")
  case None
  then show ?thesis by (simp add: scanFileForSQLInjection_def)
next
  case (Some content)
  have "perLinePass P now (relative P root f) 0 (map (stamp now) []) (splitLines content)
          = map (stamp now) (perLinePass P 0 (relative P root f) 0 [] (splitLines content))"
    by (rule perLinePass_stamp)
  then show ?thesis
    using Some by (simp add: scanFileForSQLInjection_def Let_def multiPass_stamp)
qed

lemma scanSQLInjection_stamp:
  "scanSQLInjection P now root ds es xs = map_sum id (restamp now) (scanSQLInjection P 0 root ds es xs)"
  by (simp add: scanSQLInjection_def restamp_def map_concat comp_def
        scanFileForSQLInjection_stamp [of P now])

lemma apiEnvIssue_stamp: "apiEnvIssue now r f i t = stamp now (apiEnvIssue 0 r f i t)"
  by (simp add: apiEnvIssue_def stamp_def)

lemma apiCodeIssue_stamp: "apiCodeIssue now r f i l = stamp now (apiCodeIssue 0 r f i l)"
  by (simp add: apiCodeIssue_def stamp_def)

lemma apiEnvLines_stamp:
  "apiEnvLines P now rules f ls idx = map (stamp now) (apiEnvLines P 0 rules f ls idx)"
proof (induction ls arbitrary: idx)
  case Nil
  then show ?case by simp
next
  case (Cons l ls)
  have one: "(if testRe P kp t then [apiEnvIssue now r f idx t] else [])
               = map (stamp now) (if testRe P kp t then [apiEnvIssue 0 r f idx t] else [])" for r kp t
    by (simp add: apiEnvIssue_stamp [of now])
  show ?case
    by (simp add: Cons.IH Let_def map_concat comp_def one)
qed

lemma checkEnvForAPIKeys_stamp:
  "checkEnvForAPIKeys P now root rules = map (stamp now) (checkEnvForAPIKeys P 0 root rules)"
  by (simp add: checkEnvForAPIKeys_def Let_def apiEnvLines_stamp [of P now] split: option.splits)

lemma apiCodeLines_stamp:
  "apiCodeLines P now r rel cp (map (stamp now) found) ls idx
     = map (stamp now) (apiCodeLines P 0 r rel cp found ls idx)"
proof (induction ls arbitrary: found idx)
  case Nil
  then show ?case by simp
next
  case (Cons l ls)
  have "apiCodeLines P now r rel cp (map (stamp now) found @ [apiCodeIssue now r rel idx l]) ls (idx + 1)
          = map (stamp now) (apiCodeLines P 0 r rel cp (found @ [apiCodeIssue 0 r rel idx l]) ls (idx + 1))"
    using Cons.IH [of "found @ [apiCodeIssue 0 r rel idx l]" "idx + 1"]
    by (simp add: apiCodeIssue_stamp [of now])
  then show ?case by (simp add: Cons.IH)
qed

lemma apiCodePatterns_stamp:
  "foldl (\<lambda>acc cp. apiCodeLines P now r rel cp acc ls 0) (map (stamp now) found) cps
     = map (stamp now) (foldl (\<lambda>acc cp. apiCodeLines P 0 r rel cp acc ls 0) found cps)"
  by (induction cps arbitrary: found) (simp_all add: apiCodeLines_stamp)

lemma apiCodeRules_stamp:
  "apiCodeRules P now rel c (map (stamp now) found) rules
     = map (stamp now) (apiCodeRules P 0 rel c found rules)"
  by (induction rules arbitrary: found) (simp_all add: apiCodePatterns_stamp)

lemma apiCodeFiles_stamp:
  "apiCodeFiles P now root rules (map (stamp now) found) files
     = map (stamp now) (apiCodeFiles P 0 root rules found files)"
proof (induction files arbitrary: found)
  case Nil
  then show ?case by simp
next
  case (Cons f fs)
  show ?case
    by (cases "readFileSync P f") (simp_all add: Cons.IH apiCodeRules_stamp)
qed

lemma scanAPIKeys_stamp:
  "scanAPIKeys P now root custom ds es xs = map_sum id (restamp now) (scanAPIKeys P 0 root custom ds es xs)"
proof -
  have "apiCodeFiles P now root (DEFAULT_API_KEY_RULES @ custom) (map (stamp now) []) (sourceFilesOf P root ds es xs)
          = map (stamp now) (apiCodeFiles P 0 root (DEFAULT_API_KEY_RULES @ custom) [] (sourceFilesOf P root ds es xs))"
    by (rule apiCodeFiles_stamp)
  then show ?thesis
    by (simp add: scanAPIKeys_def Let_def restamp_def checkCodeForAPIKeys_def
          checkEnvForAPIKeys_stamp [of P now])
qed

lemma collectIssues_stamp:
  "collectIssues (repoScanners P now) root c
     = map_prod (map (stamp now)) id (collectIssues (repoScanners P 0) root c)"
proof -
  let ?r = "rlsScanner c"
  have s1: "scanSecrets P now root (secretScanner c) = map_sum id (restamp now) (scanSecrets P 0 root (secretScanner c))"
    by (rule scanSecrets_stamp)
  have s2: "scanRLS P now root ?r = map_sum id (restamp now) (scanRLS P 0 root ?r)"
    by (rule scanRLS_stamp)
  have s3: "scanSQLInjection P now root (scanDirs ?r) (extensions ?r) (excludeDirs ?r)
              = map_sum id (restamp now) (scanSQLInjection P 0 root (scanDirs ?r) (extensions ?r) (excludeDirs ?r))"
    by (rule scanSQLInjection_stamp)
  have s4: "scanAPIKeys P now root [] (scanDirs ?r) (extensions ?r) (excludeDirs ?r)
              = map_sum id (restamp now) (scanAPIKeys P 0 root [] (scanDirs ?r) (extensions ?r) (excludeDirs ?r))"
    by (rule scanAPIKeys_stamp)
  show ?thesis
  proof (cases "scanSecrets P 0 root (secretScanner c)")
    case (Inl e)
    then show ?thesis by (simp add: collectIssues_def repoScanners_def s1)
  next
    case r1: (Inr a)
    show ?thesis
    proof (cases "enabled ?r")
      case True
      show ?thesis
      proof (cases "scanRLS P 0 root ?r")
        case (Inl e)
        then show ?thesis using r1 True by (simp add: collectIssues_def repoScanners_def s1 s2 restamp_def)
      next
        case r2: (Inr b)
        show ?thesis
        proof (cases "scanSQLInjection P 0 root (scanDirs ?r) (extensions ?r) (excludeDirs ?r)")
          case (Inl e)
          then show ?thesis using r1 r2 True
            by (simp add: collectIssues_def repoScanners_def s1 s2 s3 restamp_def)
        next
          case r3: (Inr d)
          show ?thesis
            by (cases "scanAPIKeys P 0 root [] (scanDirs ?r) (extensions ?r) (excludeDirs ?r)")
               (use r1 r2 r3 True in \<open>simp_all add: collectIssues_def repoScanners_def s1 s2 s3 s4 restamp_def\<close>)
        qed
      qed
    next
      case False
      show ?thesis
      proof (cases "scanSQLInjection P 0 root (scanDirs ?r) (extensions ?r) (excludeDirs ?r)")
        case (Inl e)
        then show ?thesis using r1 False
          by (simp add: collectIssues_def repoScanners_def s1 s3 restamp_def)
      next
        case r3: (Inr d)
        show ?thesis
          by (cases "scanAPIKeys P 0 root [] (scanDirs ?r) (extensions ?r) (excludeDirs ?r)")
             (use r1 r3 False in \<open>simp_all add: collectIssues_def repoScanners_def s1 s3 s4 restamp_def\<close>)
      qed
    qed
  qed
qed

lemma collectIssues_ids:
  "map issue_id (fst (collectIssues (repoScanners P now1) root c))
     = map issue_id (fst (collectIssues (repoScanners P now2) root c))"
  by (simp add: collectIssues_stamp [of P now1] collectIssues_stamp [of P now2] comp_def)


lemma runFullScanWith_result:
  "\<not> isScanning st \<Longrightarrow> runFullScanWith S root c st = (r, st') \<Longrightarrow>
     r = fst (collectIssues S root c) \<and> \<not> isScanning st'"
  by (auto simp: runFullScanWith_def Let_def split: prod.splits option.splits)

text \<open>
  Claim C9. Over an unchanged platform (file tree, regular-expression engine and authority
  answers) and a fixed configuration, two runs of \<open>runFullScan\<close> one after the other, at
  any two times, return issues with the same identities in the same order; in particular
  the sorted sets of issue identities are equal.
\<close>

theorem runFullScan_twice_same_ids:
  "\<not> isScanning st \<Longrightarrow>
   runFullScan P now1 root config st = (r1, st1) \<Longrightarrow>
   runFullScan P now2 root config st1 = (r2, st2) \<Longrightarrow>
     map issue_id r1 = map issue_id r2
     \<and> sorted_list_of_set (set (map issue_id r1)) = sorted_list_of_set (set (map issue_id r2))"
proof -
  assume idle: "\<not> isScanning st"
    and run1: "runFullScan P now1 root config st = (r1, st1)"
    and run2: "runFullScan P now2 root config st1 = (r2, st2)"
  from runFullScanWith_result [OF idle run1 [unfolded runFullScan_def]]
  have r1: "r1 = fst (collectIssues (repoScanners P now1) root config)" and idle1: "\<not> isScanning st1"
    by simp_all
  from runFullScanWith_result [OF idle1 run2 [unfolded runFullScan_def]]
  have r2: "r2 = fst (collectIssues (repoScanners P now2) root config)" by simp
  have "map issue_id r1 = map issue_id r2"
    unfolding r1 r2 by (rule collectIssues_ids)
  then show ?thesis by simp
qed

theorem runFullScan_twice_same_ids_witness:
  "\<not> isScanning idleState
   \<and> map issue_id (fst (runFullScan demoPlatform 1 ''/p'' getDefaultConfig idleState))
       = [''secret-.env-NEXT_PUBLIC_DATABASE_URL-1'', ''gitignore-env-missing'',
          ''rls-disabled-orders'', ''rls-disabled-users'', ''sqli-raw-sql-string-concat-src/a.ts-1'']
   \<and> sorted_list_of_set (set (map issue_id
         (fst (runFullScan demoPlatform 1 ''/p'' getDefaultConfig idleState))))
     = sorted_list_of_set (set (map issue_id
         (fst (runFullScan demoPlatform 2 ''/p'' getDefaultConfig
                (snd (runFullScan demoPlatform 1 ''/p'' getDefaultConfig idleState))))))"
proof -
  have idle: "\<not> isScanning idleState" by (simp add: idleState_def)
  have ids: "map issue_id (fst (runFullScan demoPlatform 1 ''/p'' getDefaultConfig idleState))
       = [''secret-.env-NEXT_PUBLIC_DATABASE_URL-1'', ''gitignore-env-missing'',
          ''rls-disabled-orders'', ''rls-disabled-users'', ''sqli-raw-sql-string-concat-src/a.ts-1'']"
    by code_simp
  from runFullScan_twice_same_ids [OF idle, of demoPlatform 1 "''/p''" getDefaultConfig
      "fst (runFullScan demoPlatform 1 ''/p'' getDefaultConfig idleState)"
      "snd (runFullScan demoPlatform 1 ''/p'' getDefaultConfig idleState)" 2
      "fst (runFullScan demoPlatform 2 ''/p'' getDefaultConfig
                (snd (runFullScan demoPlatform 1 ''/p'' getDefaultConfig idleState)))"
      "snd (runFullScan demoPlatform 2 ''/p'' getDefaultConfig
                (snd (runFullScan demoPlatform 1 ''/p'' getDefaultConfig idleState)))"]
  have "sorted_list_of_set (set (map issue_id
         (fst (runFullScan demoPlatform 1 ''/p'' getDefaultConfig idleState))))
     = sorted_list_of_set (set (map issue_id
         (fst (runFullScan demoPlatform 2 ''/p'' getDefaultConfig
                (snd (runFullScan demoPlatform 1 ''/p'' getDefaultConfig idleState))))))"
    by simp
  with idle ids show ?thesis by blast
qed

section \<open>Watch scheduler: trailing-edge debounce\<close>


lemma fireTimers_single: "fireTimers [(h, deadline)] w = timerCallback deadline w"
  by (simp add: fireTimers_def)






section \<open>RLS scanners: whitelisted tables\<close>

lemma rlsIssuesForTable_table:
  "i \<in> set (rlsIssuesForTable now t us s) \<Longrightarrow> issue_table i = Some t"
  by (auto simp: rlsIssuesForTable_def rlsDisabledIssue_def rlsNoAuthIssue_def split: if_splits)

lemma rlsLoop_tables:
  "i \<in> set (rlsLoop P now c checked tu) \<Longrightarrow>
     \<exists>t. issue_table i = Some t \<and> t \<notin> set (whitelistedTables c)"
proof (induction tu arbitrary: checked)
  case Nil
  then show ?case by simp
next
  case (Cons tus rest)
  obtain t us where tus: "tus = (t, us)" by (cases tus)
  from Cons.prems show ?case
    by (auto simp: tus split: if_splits dest: rlsIssuesForTable_table Cons.IH)
qed

lemma dbRowIssue_table: "db_table (dbRowIssue row) = Some (table_name row)"
  by (simp add: dbRowIssue_def Let_def)

lemma dbRowsLoop_tables:
  "\<forall>i\<in>set (db_issues acc). db_table i \<noteq> Some t \<Longrightarrow> t \<in> set w \<Longrightarrow>
     \<forall>i\<in>set (db_issues (dbRowsLoop (Some w) acc rows)). db_table i \<noteq> Some t"
proof (induction rows arbitrary: acc)
  case Nil
  then show ?case by simp
next
  case (Cons row rows)
  let ?acc1 = "acc\<lparr>filteredTables := mapSet (filteredTables acc) (table_name row) [(''database -> public'', 1)]\<rparr>"
  show ?case
  proof (cases "table_name row \<in> set w")
    case True
    have "\<forall>i\<in>set (db_issues (dbRowsLoop (Some w) ?acc1 rows)). db_table i \<noteq> Some t"
      by (rule Cons.IH) (use Cons.prems in simp_all)
    then show ?thesis using True by (simp add: Let_def)
  next
    case False
    then have ne: "table_name row \<noteq> t" using Cons.prems(2) by auto
    have "\<forall>i\<in>set (db_issues (dbRowsLoop (Some w) (?acc1\<lparr>db_issues := db_issues ?acc1 @ [dbRowIssue row]\<rparr>) rows)).
            db_table i \<noteq> Some t"
      by (rule Cons.IH) (use Cons.prems ne in \<open>auto simp: dbRowIssue_table\<close>)
    then show ?thesis using False by (simp add: Let_def)
  qed
qed

text \<open>
  Claim C7. A table named in the whitelist never gets an RLS issue, whatever the authority
  reports about it and however many source locations reference it: the HTTP scanner
  returns a result, which holds no issue for that table, and the scanner over a direct
  database connection produces no issue for that table either.
\<close>

theorem whitelisted_table_no_rls_issue:
  "(t \<in> set (whitelistedTables config) \<longrightarrow>
      returns (scanRLS P now root config)
      \<and> \<not> list_ex (\<lambda>i. issue_table i = Some t) (issuesOf (scanRLS P now root config)))
   \<and> (t \<in> set w \<longrightarrow>
        \<not> list_ex (\<lambda>i. db_table i = Some t) (dbIssuesOf (scanRLS_db D databaseUrl (Some w))))"
proof (intro conjI impI)
  show "returns (scanRLS P now root config)"
    by (simp add: returns_def scanRLS_def Let_def)
next
  assume t: "t \<in> set (whitelistedTables config)"
  show "\<not> list_ex (\<lambda>i. issue_table i = Some t) (issuesOf (scanRLS P now root config))"
    using t by (auto simp: list_ex_iff issuesOf_def scanRLS_def Let_def dest: rlsLoop_tables)
next
  assume t: "t \<in> set w"
  have "\<forall>i\<in>set (db_issues (dbRowsLoop (Some w) \<lparr>db_issues = [], filteredTables = []\<rparr> rows)). db_table i \<noteq> Some t"
    for rows by (rule dbRowsLoop_tables) (use t in simp_all)
  then show "\<not> list_ex (\<lambda>i. db_table i = Some t) (dbIssuesOf (scanRLS_db D databaseUrl (Some w)))"
    by (auto simp: list_ex_iff dbIssuesOf_def scanRLS_db_def dbMissingUrlIssue_def dbConnectionIssue_def
             Let_def split: sum.splits option.splits)
qed

theorem whitelisted_table_no_rls_issue_witness:
  "''orders'' \<in> set (whitelistedTables ordersWhitelisted)
   \<and> \<not> list_ex (\<lambda>i. issue_table i = Some ''orders'')
          (issuesOf (scanRLS demoPlatform 0 ''/p'' ordersWhitelisted))
   \<and> map issue_table (issuesOf (scanRLS demoPlatform 0 ''/p'' ordersWhitelisted)) = [Some ''users'']
   \<and> \<not> list_ex (\<lambda>i. db_table i = Some ''orders'')
          (dbIssuesOf (scanRLS_db demoDb ''postgres://db'' (Some [''orders''])))
   \<and> map db_table (dbIssuesOf (scanRLS_db demoDb ''postgres://db'' (Some [''orders'']))) = [Some ''users'']"
proof -
  have wl: "''orders'' \<in> set (whitelistedTables ordersWhitelisted)"
    by (simp add: ordersWhitelisted_def)
  have w: "''orders'' \<in> set [''orders'']" by simp
  have http: "map issue_table (issuesOf (scanRLS demoPlatform 0 ''/p'' ordersWhitelisted)) = [Some ''users'']"
    by code_simp
  have db: "map db_table (dbIssuesOf (scanRLS_db demoDb ''postgres://db'' (Some [''orders'']))) = [Some ''users'']"
    by code_simp
  from whitelisted_table_no_rls_issue [of "''orders''" ordersWhitelisted demoPlatform 0 "''/p''"
        "[''orders'']" demoDb "''postgres://db''"] wl w http db
  show ?thesis by blast
qed

section \<open>RLS scanners: the authority cannot be consulted\<close>

lemma statusOfFlags_ok: "\<not> statusFailed (statusOfFlags d)"
  by (simp add: statusFailed_def statusOfFlags_def)

lemma failedStatus_disabled: "\<not> rlsEnabled (failedStatus m)"
  by (simp add: failedStatus_def)

lemma status_no_error:
  "\<not> statusFailed \<lparr>rlsEnabled = a, hasAuthPolicy = b, rls_error = None\<rparr>"
  by (simp add: statusFailed_def)

lemma checkRLSViaDirectQuery_shape:
  "(\<exists>m. checkRLSViaDirectQuery P t u k = failedStatus m) \<or> \<not> statusFailed (checkRLSViaDirectQuery P t u k)"
  by (auto simp: checkRLSViaDirectQuery_def statusOfFlags_ok
           split: response.splits json_result.splits exec_body.splits list.splits option.splits)

lemma checkRLSStatus_shape:
  "(\<exists>m. checkRLSStatus P t u k = failedStatus m) \<or> \<not> statusFailed (checkRLSStatus P t u k)"
  using checkRLSViaDirectQuery_shape [of P t u k]
  by (auto simp: checkRLSStatus_def statusOfFlags_ok status_no_error
           split: response.splits json_result.splits option.splits)

lemma checkRLSStatus_failed:
  "statusFailed (checkRLSStatus P t u k) \<Longrightarrow> \<not> rlsEnabled (checkRLSStatus P t u k)"
  using checkRLSStatus_shape [of P t u k] by (auto simp: failedStatus_disabled)

lemma checkRLSStatus_unavailable:
  "authorityUnavailable P u k t \<Longrightarrow> statusFailed (checkRLSStatus P t u k)"
  by (auto simp: authorityUnavailable_def checkRLSStatus_def checkRLSViaDirectQuery_def
        statusFailed_def failedStatus_def split: response.splits)

lemma addUsage_keys:
  "map fst (addUsage m t u) = (if t \<in> set (map fst m) then map fst m else map fst m @ [t])"
  by (induction m) force+

lemma addUsage_distinct: "distinct (map fst m) \<Longrightarrow> distinct (map fst (addUsage m t u))"
  by (simp add: addUsage_keys)

lemma addQueries_distinct:
  "distinct (map fst m) \<Longrightarrow>
   distinct (map fst (foldl (\<lambda>m (t, l, c). addUsage m t (mk l c)) m qs))"
  by (induction qs arbitrary: m) (auto simp: addUsage_distinct)

lemma collectUsages_distinct_from:
  "distinct (map fst m) \<Longrightarrow>
   distinct (map fst (foldl (\<lambda>m filePath.
              foldl (\<lambda>m (t, l, c). addUsage m t \<lparr>u_file = relative P root filePath, u_line = l, u_context = c\<rparr>)
                    m (findSupabaseQueries P filePath)) m files))"
proof (induction files arbitrary: m)
  case Nil
  then show ?case by simp
next
  case (Cons f fs)
  have "distinct (map fst (foldl (\<lambda>m (t, l, c). addUsage m t \<lparr>u_file = relative P root f, u_line = l, u_context = c\<rparr>)
                    m (findSupabaseQueries P f)))"
    by (rule addQueries_distinct [OF Cons.prems])
  from Cons.IH [OF this] show ?case by simp
qed

lemma tableUsagesOf_distinct: "distinct (map fst (tableUsagesOf P root c))"
  unfolding tableUsagesOf_def collectUsages_def
  by (rule collectUsages_distinct_from) simp

lemma rlsLoop_distinct:
  "distinct (map fst tu) \<Longrightarrow> set checked \<inter> fst ` set tu = {} \<Longrightarrow>
   rlsLoop P now c checked tu
     = concat (map (\<lambda>(t, us). if t \<in> set (whitelistedTables c) then []
                               else rlsIssuesForTable now t us
                                      (checkRLSStatus P t (supabaseUrl c) (supabaseServiceRoleKey c))) tu)"
proof (induction tu arbitrary: checked)
  case Nil
  then show ?case by simp
next
  case (Cons tus rest)
  obtain t us where tus: "tus = (t, us)" by (cases tus)
  have fresh: "t \<notin> set checked" using Cons.prems(2) by (auto simp: tus)
  have ih: "rlsLoop P now c (t # checked) rest
     = concat (map (\<lambda>(t, us). if t \<in> set (whitelistedTables c) then []
                               else rlsIssuesForTable now t us
                                      (checkRLSStatus P t (supabaseUrl c) (supabaseServiceRoleKey c))) rest)"
  proof (rule Cons.IH)
    show "distinct (map fst rest)" using Cons.prems(1) by simp
    show "set (t # checked) \<inter> fst ` set rest = {}"
      using Cons.prems by (auto simp: tus)
  qed
  show ?case by (simp add: tus fresh ih)
qed

lemma scanRLS_issues:
  "enabled c \<Longrightarrow>
   scanRLS P now root c
     = Inr \<lparr>issues = concat (map (\<lambda>(t, us). if t \<in> set (whitelistedTables c) then []
                               else rlsIssuesForTable now t us
                                      (checkRLSStatus P t (supabaseUrl c) (supabaseServiceRoleKey c)))
                            (tableUsagesOf P root c)),
            scannedAt = now, duration = 0\<rparr>"
proof -
  assume en: "enabled c"
  have "rlsLoop P now c [] (tableUsagesOf P root c)
     = concat (map (\<lambda>(t, us). if t \<in> set (whitelistedTables c) then []
                               else rlsIssuesForTable now t us
                                      (checkRLSStatus P t (supabaseUrl c) (supabaseServiceRoleKey c)))
                            (tableUsagesOf P root c))"
    by (rule rlsLoop_distinct [OF tableUsagesOf_distinct]) simp
  then show ?thesis
    using en by (cases "tableUsagesOf P root c = []") (simp_all add: scanRLS_def Let_def tableUsagesOf_def)
qed

lemma failed_table_issue:
  "statusFailed (checkRLSStatus P t u k) \<Longrightarrow>
   rlsIssuesForTable now t us (checkRLSStatus P t u k) = [rlsDisabledIssue now t us (checkRLSStatus P t u k)]"
  using checkRLSStatus_failed [of P t u k] by (simp add: rlsIssuesForTable_def)

lemma concat_map_failed:
  "list_all (\<lambda>(t, us). Q t \<or> F t us = [G t us]) tu \<Longrightarrow>
   concat (map (\<lambda>(t, us). if Q t then [] else F t us) tu)
     = map (\<lambda>(t, us). G t us) (filter (\<lambda>(t, us). \<not> Q t) tu)"
  by (induction tu) auto

lemma demo_usages:
  "map fst (tableUsagesOf demoPlatform ''/p'' (rlsScanner getDefaultConfig)) = [''orders'', ''users'']"
  by code_simp

text \<open>
  Claim C3, as stated, fails. With the default configuration the connection data of the
  authority is missing; the small project references two tables, and the HTTP scanner
  reports each of them with a critical finding, not one warning. Over a direct database
  connection that cannot be opened the scanner reports one issue, but a critical one.
\<close>

theorem rls_unconfigured_counterexample:
  "supabaseUrl (rlsScanner getDefaultConfig) = []
   \<and> map issue_id (issuesOf (scanRLS demoPlatform 0 ''/p'' (rlsScanner getDefaultConfig)))
       = [''rls-disabled-orders'', ''rls-disabled-users'']
   \<and> map severity (issuesOf (scanRLS demoPlatform 0 ''/p'' (rlsScanner getDefaultConfig)))
       = [critical, critical]
   \<and> dbConnectAndQuery unreachableDb = Inl (Fault ''connect ECONNREFUSED'')
   \<and> map db_severity (dbIssuesOf (scanRLS_db unreachableDb ''postgres://db'' None)) = [critical]"
  by code_simp

text \<open>
  Claim C3, amended. The HTTP scanner never throws. If, for every referenced table that is
  not whitelisted, the connection data is missing or a network call to the authority
  fails, the HTTP scanner emits for each such table exactly one issue and nothing else:
  a critical \<open>rls-missing\<close> issue whose message has the failure reason as one of its lines.
  The scanner over a direct database connection emits exactly one issue and no finding per
  table in two cases, and returns it: a warning when the database URL is missing, and,
  when the client has been constructed, connecting or querying then throws and closing the
  client succeeds, a critical issue whose title carries the error message.

  The statement covers neither the case where both remote procedures of the HTTP authority
  answer with a status that is not ok, nor the cases where constructing or closing the
  database client throws.
\<close>

theorem rls_authority_unavailable:
  "returns (scanRLS P now root config)
   \<and> (enabled config \<longrightarrow>
        list_all (\<lambda>(t, us). t \<in> set (whitelistedTables config)
                    \<or> authorityUnavailable P (supabaseUrl config) (supabaseServiceRoleKey config) t)
          (tableUsagesOf P root config) \<longrightarrow>
        scanRLS P now root config
          = Inr \<lparr>issues = map (\<lambda>(t, us). rlsDisabledIssue now t us
                                   (checkRLSStatus P t (supabaseUrl config) (supabaseServiceRoleKey config)))
                             (filter (\<lambda>(t, us). t \<notin> set (whitelistedTables config))
                                (tableUsagesOf P root config)),
                 scannedAt = now, duration = 0\<rparr>)
   \<and> (authorityUnavailable P url k t \<longrightarrow>
        severity (rlsDisabledIssue now t us (checkRLSStatus P t url k)) = critical
        \<and> category (rlsDisabledIssue now t us (checkRLSStatus P t url k)) = rls_missing
        \<and> issue_table (rlsDisabledIssue now t us (checkRLSStatus P t url k)) = Some t
        \<and> message (rlsDisabledIssue now t us (checkRLSStatus P t url k))
            = join [NL] (filter (\<lambda>l. l \<noteq> []) (rlsDisabledLines t us (checkRLSStatus P t url k)))
        \<and> carriesReason t us (checkRLSStatus P t url k))
   \<and> scanRLS_db D [] w = Inr \<lparr>db_issues = [dbMissingUrlIssue], filteredTables = []\<rparr>
   \<and> db_severity dbMissingUrlIssue = warning
   \<and> (databaseUrl \<noteq> [] \<longrightarrow> newClientSsl D = None \<longrightarrow> dbConnectAndQuery D = Inl err \<longrightarrow>
        clientEnd D = None \<longrightarrow>
        scanRLS_db D databaseUrl w = Inr \<lparr>db_issues = [dbConnectionIssue err], filteredTables = []\<rparr>
        \<and> db_severity (dbConnectionIssue err) = critical
        \<and> db_title (dbConnectionIssue err) = ''Veritabani Baglanti Hatasi: '' @ fault_message err)"
proof (intro conjI impI)
  show "returns (scanRLS P now root config)"
    by (simp add: returns_def scanRLS_def Let_def)
next
  assume en: "enabled config"
    and un: "list_all (\<lambda>(t, us). t \<in> set (whitelistedTables config)
                  \<or> authorityUnavailable P (supabaseUrl config) (supabaseServiceRoleKey config) t)
        (tableUsagesOf P root config)"
  have "list_all (\<lambda>(t, us). t \<in> set (whitelistedTables config)
           \<or> rlsIssuesForTable now t us (checkRLSStatus P t (supabaseUrl config) (supabaseServiceRoleKey config))
               = [rlsDisabledIssue now t us (checkRLSStatus P t (supabaseUrl config) (supabaseServiceRoleKey config))])
        (tableUsagesOf P root config)"
    using un by (auto simp: list_all_iff failed_table_issue checkRLSStatus_unavailable)
  from concat_map_failed [OF this]
  show "scanRLS P now root config
        = Inr \<lparr>issues = map (\<lambda>(t, us). rlsDisabledIssue now t us
                                 (checkRLSStatus P t (supabaseUrl config) (supabaseServiceRoleKey config)))
                           (filter (\<lambda>(t, us). t \<notin> set (whitelistedTables config))
                              (tableUsagesOf P root config)),
               scannedAt = now, duration = 0\<rparr>"
    by (simp add: scanRLS_issues [OF en])
next
  show "severity (rlsDisabledIssue now t us (checkRLSStatus P t url k)) = critical"
    and "category (rlsDisabledIssue now t us (checkRLSStatus P t url k)) = rls_missing"
    and "issue_table (rlsDisabledIssue now t us (checkRLSStatus P t url k)) = Some t"
    and "message (rlsDisabledIssue now t us (checkRLSStatus P t url k))
           = join [NL] (filter (\<lambda>l. l \<noteq> []) (rlsDisabledLines t us (checkRLSStatus P t url k)))"
    by (simp_all add: rlsDisabledIssue_def)
next
  assume "authorityUnavailable P url k t"
  then have "statusFailed (checkRLSStatus P t url k)"
    by (rule checkRLSStatus_unavailable)
  then show "carriesReason t us (checkRLSStatus P t url k)"
    by (auto simp: carriesReason_def statusFailed_def rlsDisabledLines_def split: option.splits)
next
  show "scanRLS_db D [] w = Inr \<lparr>db_issues = [dbMissingUrlIssue], filteredTables = []\<rparr>"
    by (simp add: scanRLS_db_def)
  show "db_severity dbMissingUrlIssue = warning" by (simp add: dbMissingUrlIssue_def)
  show "db_severity (dbConnectionIssue err) = critical"
    and "db_title (dbConnectionIssue err) = ''Veritabani Baglanti Hatasi: '' @ fault_message err"
    by (simp_all add: dbConnectionIssue_def)
next
  assume "databaseUrl \<noteq> []" and "newClientSsl D = None" and "dbConnectAndQuery D = Inl err"
    and "clientEnd D = None"
  then show "scanRLS_db D databaseUrl w = Inr \<lparr>db_issues = [dbConnectionIssue err], filteredTables = []\<rparr>"
    by (simp add: scanRLS_db_def)
qed

theorem rls_authority_unavailable_witness:
  "enabled (rlsScanner getDefaultConfig)
   \<and> list_all (\<lambda>(t, us). authorityUnavailable demoPlatform [] [] t)
        (tableUsagesOf demoPlatform ''/p'' (rlsScanner getDefaultConfig))
   \<and> map fst (tableUsagesOf demoPlatform ''/p'' (rlsScanner getDefaultConfig)) = [''orders'', ''users'']
   \<and> map issue_id (issuesOf (scanRLS demoPlatform 0 ''/p'' (rlsScanner getDefaultConfig)))
       = [''rls-disabled-orders'', ''rls-disabled-users'']
   \<and> authorityUnavailable demoPlatform [] [] ''orders''
   \<and> carriesReason ''orders'' [] (checkRLSStatus demoPlatform ''orders'' [] [])
   \<and> authorityUnavailable demoPlatform ''https://db.example'' ''key'' ''orders''
   \<and> rls_error (checkRLSStatus demoPlatform ''orders'' ''https://db.example'' ''key'')
       = Some ''RLS durumu kontrol edilemedi: fetch failed''
   \<and> carriesReason ''orders'' [] (checkRLSStatus demoPlatform ''orders'' ''https://db.example'' ''key'')
   \<and> ''postgres://db'' \<noteq> ([] :: string)
   \<and> newClientSsl unreachableDb = None
   \<and> dbConnectAndQuery unreachableDb = Inl (Fault ''connect ECONNREFUSED'')
   \<and> clientEnd unreachableDb = None
   \<and> scanRLS_db unreachableDb ''postgres://db'' None
       = Inr \<lparr>db_issues = [dbConnectionIssue (Fault ''connect ECONNREFUSED'')], filteredTables = []\<rparr>"
proof -
  let ?c = "rlsScanner getDefaultConfig"
  have en: "enabled ?c" and url: "supabaseUrl ?c = []" and key: "supabaseServiceRoleKey ?c = []"
    and wl: "whitelistedTables ?c = []"
    by (simp_all add: getDefaultConfig_def)
  have un: "authorityUnavailable demoPlatform [] [] t" for t
    by (simp add: authorityUnavailable_def)
  have conn: "dbConnectAndQuery unreachableDb = Inl (Fault ''connect ECONNREFUSED'')"
    by (simp add: dbConnectAndQuery_def unreachableDb_def startsWith_def)
  have nc: "newClientSsl unreachableDb = None" and ce: "clientEnd unreachableDb = None"
    by (simp_all add: unreachableDb_def)
  have ne: "''postgres://db'' \<noteq> ([] :: string)" by simp
  have all: "list_all (\<lambda>(t, us). authorityUnavailable demoPlatform [] [] t)
        (tableUsagesOf demoPlatform ''/p'' ?c)"
    using un by (auto simp: list_all_iff)
  then have all': "list_all (\<lambda>(t, us). t \<in> set (whitelistedTables ?c)
                  \<or> authorityUnavailable demoPlatform (supabaseUrl ?c) (supabaseServiceRoleKey ?c) t)
        (tableUsagesOf demoPlatform ''/p'' ?c)"
    by (simp add: url key wl)
  have "scanRLS demoPlatform 0 ''/p'' ?c
        = Inr \<lparr>issues = map (\<lambda>(t, us). rlsDisabledIssue 0 t us
                                 (checkRLSStatus demoPlatform t (supabaseUrl ?c) (supabaseServiceRoleKey ?c)))
                           (filter (\<lambda>(t, us). t \<notin> set (whitelistedTables ?c))
                              (tableUsagesOf demoPlatform ''/p'' ?c)),
               scannedAt = 0, duration = 0\<rparr>"
    using rls_authority_unavailable [of demoPlatform 0 "''/p''" ?c] en all' by blast
  then have "map issue_id (issuesOf (scanRLS demoPlatform 0 ''/p'' ?c))
               = map (\<lambda>t. ''rls-disabled-'' @ t) (map fst (tableUsagesOf demoPlatform ''/p'' ?c))"
    by (simp add: issuesOf_def wl rlsDisabledIssue_def comp_def case_prod_unfold)
  then have ids: "map issue_id (issuesOf (scanRLS demoPlatform 0 ''/p'' ?c))
       = [''rls-disabled-orders'', ''rls-disabled-users'']"
    by (simp add: demo_usages)
  have cr: "carriesReason ''orders'' [] (checkRLSStatus demoPlatform ''orders'' [] [])"
    using rls_authority_unavailable [where P = demoPlatform and url = "[]" and k = "[]"
        and t = "''orders''" and us = "[]"] un by blast
  have net: "authorityUnavailable demoPlatform ''https://db.example'' ''key'' ''orders''"
    by (simp add: authorityUnavailable_def demoPlatform_def)
  have reason: "rls_error (checkRLSStatus demoPlatform ''orders'' ''https://db.example'' ''key'')
       = Some ''RLS durumu kontrol edilemedi: fetch failed''"
    by (simp add: checkRLSStatus_def demoPlatform_def failedStatus_def)
  have cr2: "carriesReason ''orders'' [] (checkRLSStatus demoPlatform ''orders'' ''https://db.example'' ''key'')"
    using rls_authority_unavailable [where P = demoPlatform and url = "''https://db.example''"
        and k = "''key''" and t = "''orders''" and us = "[]"] net by blast
  have db: "scanRLS_db unreachableDb ''postgres://db'' None
       = Inr \<lparr>db_issues = [dbConnectionIssue (Fault ''connect ECONNREFUSED'')], filteredTables = []\<rparr>"
    using rls_authority_unavailable [where D = unreachableDb and databaseUrl = "''postgres://db''"
        and err = "Fault ''connect ECONNREFUSED''" and w = None] conn ne nc ce by blast
  from en all demo_usages ids un [of "''orders''"] cr net reason cr2 ne nc conn ce db
  show ?thesis by blast
qed

section \<open>SQL-Injection Scanner: issues per line\<close>







lemma sqliLineIssue_fields [simp]:
  "issue_id (sqliLineIssue now p rel n l) = lineId rel n p"
  "issue_file (sqliLineIssue now p rel n l) = Some rel"
  "issue_line (sqliLineIssue now p rel n l) = Some n"
  by (simp_all add: sqliLineIssue_def lineId_def)

lemma sqliMultiIssue_fields [simp]:
  "issue_file (sqliMultiIssue now p rel n) = Some rel"
  "issue_line (sqliMultiIssue now p rel n) = Some n"
  by (simp_all add: sqliMultiIssue_def)










lemma sqliMultiIssue_id [simp]: "issue_id (sqliMultiIssue now p rel n) = multiId rel n p"
  by (simp add: sqliMultiIssue_def multiId_def)




lemma issuesAtLine_append [simp]:
  "issuesAtLine L (xs @ ys) = issuesAtLine L xs @ issuesAtLine L ys"
  by (simp add: issuesAtLine_def)

lemma issuesAtLine_multi [simp]:
  "issuesAtLine L [sqliMultiIssue now pat rel m]
     = (if m = L then [sqliMultiIssue now pat rel m] else [])"
  by (simp add: issuesAtLine_def)









end
